theory Spec2Isabelle
  imports Complex_Main "HOL-Library.Monad_Syntax"
begin

section \<open>JavaScript values\<close>

text \<open>
  Strings are \<^typ>\<open>string\<close>. A value thrown by the code is always built with
  \<^verbatim>\<open>new Error(message)\<close> (or is a native error carrying a message), so a thrown
  value is the constructor \<open>Error\<close> applied to its message, and a function that may
  throw returns \<open>js_error + 'a\<close>.
\<close>

datatype js_error = Error string

text \<open>
  A preference that is not set reads as \<^verbatim>\<open>undefined\<close>: \<open>None\<close>. JavaScript's
  truthiness of such a value: \<^verbatim>\<open>undefined\<close> and the empty string are falsy.
\<close>

fun truthy :: "string option \<Rightarrow> bool" where
  "truthy None = False"
| "truthy (Some s) = (s \<noteq> [])"

fun truthy_flag :: "bool option \<Rightarrow> bool" where
  "truthy_flag None = False"
| "truthy_flag (Some b) = b"

text \<open>Reading a field after its truthiness guard has excluded \<^verbatim>\<open>undefined\<close>.\<close>

fun str_of :: "string option \<Rightarrow> string" where
  "str_of None = []"
| "str_of (Some s) = s"

text \<open>
  \<^verbatim>\<open>s.replace(/\/$/, "")\<close>: the pattern has no \<^verbatim>\<open>g\<close> or \<^verbatim>\<open>m\<close> flag, so it
  matches one slash at the very end of the string, and that one character is removed.
\<close>

definition replace_trailing_slash :: "string \<Rightarrow> string" where
  "replace_trailing_slash s = (if s \<noteq> [] \<and> last s = CHR ''/'' then butlast s else s)"

definition ends_with_slash :: "string \<Rightarrow> bool" where
  "ends_with_slash s = (s \<noteq> [] \<and> last s = CHR ''/'')"

section \<open>Instance registry (config.ts)\<close>

record SonarrInstance =
  name :: string
  url :: string
  apiKey :: string
  isDefault :: bool

record Preferences =
  primaryInstanceName :: "string option"
  primaryInstanceUrl :: "string option"
  primaryInstanceApiKey :: "string option"
  enableSecondaryInstance :: "bool option"
  secondaryInstanceName :: "string option"
  secondaryInstanceUrl :: "string option"
  secondaryInstanceApiKey :: "string option"
  activeInstance :: "string option"

definition getSonarrInstances :: "Preferences \<Rightarrow> js_error + SonarrInstance list" where
  "getSonarrInstances preferences =
     (if \<not> truthy (primaryInstanceName preferences) \<or> \<not> truthy (primaryInstanceUrl preferences)
         \<or> \<not> truthy (primaryInstanceApiKey preferences)
      then Inl (Error ''Primary Sonarr instance configuration is incomplete'')
      else
        let instances = [] @
              [\<lparr>name = str_of (primaryInstanceName preferences),
                url = replace_trailing_slash (str_of (primaryInstanceUrl preferences)),
                apiKey = str_of (primaryInstanceApiKey preferences),
                isDefault = True\<rparr>];
            instances =
              (if truthy_flag (enableSecondaryInstance preferences)
                  \<and> truthy (secondaryInstanceName preferences)
                  \<and> truthy (secondaryInstanceUrl preferences)
                  \<and> truthy (secondaryInstanceApiKey preferences)
               then instances @
                 [\<lparr>name = str_of (secondaryInstanceName preferences),
                   url = replace_trailing_slash (str_of (secondaryInstanceUrl preferences)),
                   apiKey = str_of (secondaryInstanceApiKey preferences),
                   isDefault = False\<rparr>]
               else instances)
        in Inr instances)"

definition getActiveSonarrInstance :: "Preferences \<Rightarrow> js_error + SonarrInstance" where
  "getActiveSonarrInstance preferences =
     (case getSonarrInstances preferences of
        Inl e \<Rightarrow> Inl e
      | Inr instances \<Rightarrow>
          if activeInstance preferences = Some ''secondary''
             \<and> truthy_flag (enableSecondaryInstance preferences) \<and> length instances > 1
          then Inr (instances ! 1)
          else if length instances > 0 then Inr (instances ! 0)
          else Inl (Error ''No Sonarr instances configured''))"

text \<open>The two instances a complete configuration describes, and the predicates the
  guards of \<open>getSonarrInstances\<close> test.\<close>

definition primary_of :: "Preferences \<Rightarrow> SonarrInstance" where
  "primary_of p =
     \<lparr>name = str_of (primaryInstanceName p),
      url = replace_trailing_slash (str_of (primaryInstanceUrl p)),
      apiKey = str_of (primaryInstanceApiKey p),
      isDefault = True\<rparr>"

definition secondary_of :: "Preferences \<Rightarrow> SonarrInstance" where
  "secondary_of p =
     \<lparr>name = str_of (secondaryInstanceName p),
      url = replace_trailing_slash (str_of (secondaryInstanceUrl p)),
      apiKey = str_of (secondaryInstanceApiKey p),
      isDefault = False\<rparr>"

definition primary_complete :: "Preferences \<Rightarrow> bool" where
  "primary_complete p =
     (truthy (primaryInstanceName p) \<and> truthy (primaryInstanceUrl p)
      \<and> truthy (primaryInstanceApiKey p))"

definition secondary_complete :: "Preferences \<Rightarrow> bool" where
  "secondary_complete p =
     (truthy (secondaryInstanceName p) \<and> truthy (secondaryInstanceUrl p)
      \<and> truthy (secondaryInstanceApiKey p))"

text \<open>Sample configurations.\<close>

definition prefs_primary_only :: Preferences where
  "prefs_primary_only =
     \<lparr>primaryInstanceName = Some ''Main'',
      primaryInstanceUrl = Some ''http://nas:8989/'',
      primaryInstanceApiKey = Some ''k1'',
      enableSecondaryInstance = None,
      secondaryInstanceName = None,
      secondaryInstanceUrl = None,
      secondaryInstanceApiKey = None,
      activeInstance = None\<rparr>"

definition prefs_both :: Preferences where
  "prefs_both =
     prefs_primary_only
       \<lparr>enableSecondaryInstance := Some True,
        secondaryInstanceName := Some ''4K'',
        secondaryInstanceUrl := Some ''http://nas:8990/'',
        secondaryInstanceApiKey := Some ''k2'',
        activeInstance := Some ''secondary''\<rparr>"

definition prefs_secondary_no_url :: Preferences where
  "prefs_secondary_no_url = prefs_both\<lparr>secondaryInstanceUrl := None\<rparr>"

definition prefs_no_primary_url :: Preferences where
  "prefs_no_primary_url = prefs_both\<lparr>primaryInstanceUrl := None\<rparr>"

definition prefs_double_slash :: Preferences where
  "prefs_double_slash = prefs_primary_only\<lparr>primaryInstanceUrl := Some ''http://nas:8989//''\<rparr>"

section \<open>Rendering numbers and booleans into strings\<close>

text \<open>Template literals render an integer in decimal and a boolean as
  \<^verbatim>\<open>true\<close> or \<^verbatim>\<open>false\<close>.\<close>

definition digit_char :: "nat \<Rightarrow> char" where
  "digit_char d = ''0123456789'' ! (d mod 10)"

fun show_nat :: "nat \<Rightarrow> string" where
  "show_nat n = (if n < 10 then [digit_char n] else show_nat (n div 10) @ [digit_char (n mod 10)])"

declare show_nat.simps [simp del]

definition show_int :: "int \<Rightarrow> string" where
  "show_int i = (if i < 0 then CHR ''-'' # show_nat (nat (- i)) else show_nat (nat i))"

definition show_bool :: "bool \<Rightarrow> string" where
  "show_bool b = (if b then ''true'' else ''false'')"

text \<open>
  \<^verbatim>\<open>encodeURIComponent\<close> over the UTF-8 bytes of the string: every byte but the
  unreserved characters becomes \<^verbatim>\<open>%XX\<close>.
\<close>

definition uri_unreserved :: "char \<Rightarrow> bool" where
  "uri_unreserved c =
     (c \<in> set (''ABCDEFGHIJKLMNOPQRSTUVWXYZabcdefghijklmnopqrstuvwxyz0123456789-_.!~*()''
               @ [CHR 0x27]))"

definition hex_char :: "nat \<Rightarrow> char" where
  "hex_char d = ''0123456789ABCDEF'' ! (d mod 16)"

definition encodeURIComponent :: "string \<Rightarrow> string" where
  "encodeURIComponent s =
     concat (map (\<lambda>c. if uri_unreserved c then [c]
                       else [CHR ''%'', hex_char (of_char c div 16), hex_char (of_char c mod 16)]) s)"

section \<open>Remote resources (types.ts)\<close>

datatype json =
    JNull | JBool bool | JNum rat | JStr string | JArr "json list" | JObj "(string \<times> json) list"

record SeasonStatistics =
  previousAiring :: "string option"
  nextAiring :: "string option"
  episodeFileCount :: int
  episodeCount :: int
  totalEpisodeCount :: int
  sizeOnDisk :: int
  percentOfEpisodes :: rat

record Season =
  seasonNumber :: int
  monitored :: bool
  statistics :: "SeasonStatistics option"

record SeriesImage =
  coverType :: string
  url_image :: string
  remoteUrl :: "string option"

text \<open>The fields of a lookup result that \<open>addSeries\<close> reads.\<close>

record SeriesLookup =
  title :: string
  sortTitle :: string
  status :: string
  overview :: string
  network :: "string option"
  airTime :: "string option"
  images :: "SeriesImage list"
  seasons :: "Season list"
  year :: int
  tvdbId :: int
  imdbId :: "string option"
  titleSlug :: string

datatype series_type = standard | daily | anime

record add_options =
  searchForMissingEpisodes :: bool
  searchForCutoffUnmetEpisodes :: bool

text \<open>The object literal \<^verbatim>\<open>payload\<close> of \<open>addSeries\<close>.\<close>

record payload =
  title :: string
  sortTitle :: string
  status :: string
  overview :: string
  network :: "string option"
  airTime :: "string option"
  images :: "SeriesImage list"
  seasons :: "Season list"
  year :: int
  path :: string
  qualityProfileId :: int
  languageProfileId :: int
  seasonFolder :: bool
  monitored :: bool
  tvdbId :: int
  imdbId :: "string option"
  titleSlug :: string
  seriesType :: series_type
  tags :: "int list"
  addOptions :: add_options

text \<open>
  \<^verbatim>\<open>getDownloadProgress\<close> takes any object with \<^verbatim>\<open>size\<close> and \<^verbatim>\<open>sizeleft\<close>;
  a queue item is one. The fields of a queue item read by the modelled code are kept.
\<close>

record sized =
  size_item :: rat
  sizeleft :: rat

record QueueItem = sized +
  id_item :: int
  title :: string
  status :: string
  timeleft :: "string option"

section \<open>HTTP transport and side effects\<close>

datatype http_method = GET | POST | DELETE

record request =
  url_request :: string
  method_request :: http_method
  headers :: "(string \<times> string) list"
  body :: "payload option"

text \<open>
  A response as the code reads it. \<^verbatim>\<open>response.text()\<close> and
  \<^verbatim>\<open>response.json()\<close> are promises: \<open>Inl m\<close> is a rejection with message \<open>m\<close>.
  \<^verbatim>\<open>response.ok\<close> is true exactly for a status in the range 200 to 299.
\<close>

record response =
  status :: nat
  statusText :: string
  text_body :: "string + string"
  json_body :: "string + json"

definition ok :: "response \<Rightarrow> bool" where
  "ok r = (200 \<le> response.status r \<and> response.status r \<le> 299)"

text \<open>\<^verbatim>\<open>fetch\<close> either rejects (transport failure) or resolves to a response.\<close>

datatype fetch_result = Rejected string | Resolved response

datatype toast_style = Success | Failure

text \<open>What a call does besides returning, in the order it does it.\<close>

datatype effect =
    Fetch request
  | ConsoleError string
  | ShowToast toast_style string string

text \<open>Default parameter values: an omitted argument is \<open>None\<close>.\<close>

fun default_true :: "bool option \<Rightarrow> bool" where
  "default_true None = True"
| "default_true (Some b) = b"

definition invalid_instance :: "SonarrInstance option \<Rightarrow> bool" where
  "invalid_instance instance =
     (case instance of None \<Rightarrow> True | Some i \<Rightarrow> url i = [] \<or> apiKey i = [])"

definition http_error :: "nat \<Rightarrow> string \<Rightarrow> js_error" where
  "http_error code detail = Error (''HTTP '' @ show_nat code @ '': '' @ detail)"

section \<open>One-shot operations (hooks/useSonarrAPI.ts)\<close>

text \<open>
  Each operation takes the transport \<open>fetch\<close> (what the network answers to a request)
  and returns what the promise settles to, \<open>Inl\<close> for a rejection, with the effects of
  the call in order. The instance guard stands before the \<^verbatim>\<open>try\<close> block, so its
  error is not caught; an error raised inside the block goes through the
  \<^verbatim>\<open>catch\<close> clause. The locals \<^verbatim>\<open>url\<close> and \<^verbatim>\<open>payload\<close> of each function and
  the options it passes to \<^verbatim>\<open>fetch\<close> are definitions of their own.
\<close>

definition searchSeries_request :: "SonarrInstance \<Rightarrow> string \<Rightarrow> request" where
  "searchSeries_request inst query =
     \<lparr>url_request = url inst @ ''/api/v3/series/lookup?term='' @ encodeURIComponent query,
      method_request = GET,
      headers = [(''X-Api-Key'', apiKey inst), (''Content-Type'', ''application/json'')],
      body = None\<rparr>"

definition searchSeries ::
  "(request \<Rightarrow> fetch_result) \<Rightarrow> SonarrInstance option \<Rightarrow> string
     \<Rightarrow> (js_error + json list) \<times> effect list" where
  "searchSeries fetch instance query =
     (case instance of
        None \<Rightarrow> (Inl (Error ''Invalid Sonarr instance configuration''), [])
      | Some inst \<Rightarrow>
          if url inst = [] \<or> apiKey inst = []
          then (Inl (Error ''Invalid Sonarr instance configuration''), [])
          else
            let rq = searchSeries_request inst query;
                attempt =
                  (case fetch rq of
                     Rejected m \<Rightarrow> Inl (Error m)
                   | Resolved response \<Rightarrow>
                       if \<not> ok response
                       then Inl (http_error (response.status response) (statusText response))
                       else (case json_body response of
                               Inl m \<Rightarrow> Inl (Error m)
                             | Inr result \<Rightarrow>
                                 Inr (case result of JArr xs \<Rightarrow> xs | _ \<Rightarrow> [])))
            in (case attempt of
                  Inr result \<Rightarrow> (Inr result, [Fetch rq])
                | Inl (Error m) \<Rightarrow>
                    (Inr [],
                     [Fetch rq,
                      ConsoleError ''Series search error:'',
                      ShowToast Failure ''Search Failed'' (''Failed to search series: '' @ m)])))"

definition addSeries_payload ::
  "SeriesLookup \<Rightarrow> int \<Rightarrow> string \<Rightarrow> int \<Rightarrow> series_type \<Rightarrow> bool \<Rightarrow> bool option \<Rightarrow> bool option
     \<Rightarrow> Season list option \<Rightarrow> payload" where
  "addSeries_payload series qualityProfileId' rootFolderPath languageProfileId'
       seriesType' seasonFolder' monitored' searchOnAdd monitorSeasons =
     \<lparr>payload.title = SeriesLookup.title series,
      payload.sortTitle = SeriesLookup.sortTitle series,
      payload.status = SeriesLookup.status series,
      payload.overview = SeriesLookup.overview series,
      payload.network = SeriesLookup.network series,
      payload.airTime = SeriesLookup.airTime series,
      payload.images = SeriesLookup.images series,
      payload.seasons =
        (case monitorSeasons of Some ms \<Rightarrow> ms | None \<Rightarrow> SeriesLookup.seasons series),
      payload.year = SeriesLookup.year series,
      path = rootFolderPath @ ''/'' @ SeriesLookup.title series,
      qualityProfileId = qualityProfileId',
      languageProfileId = languageProfileId',
      seasonFolder = seasonFolder',
      payload.monitored = default_true monitored',
      payload.tvdbId = SeriesLookup.tvdbId series,
      payload.imdbId = SeriesLookup.imdbId series,
      payload.titleSlug = SeriesLookup.titleSlug series,
      seriesType = seriesType',
      tags = [],
      addOptions =
        \<lparr>searchForMissingEpisodes = default_true searchOnAdd,
         searchForCutoffUnmetEpisodes = False\<rparr>\<rparr>"

definition addSeries_request :: "SonarrInstance \<Rightarrow> payload \<Rightarrow> request" where
  "addSeries_request inst pl =
     \<lparr>url_request = url inst @ ''/api/v3/series'',
      method_request = POST,
      headers = [(''X-Api-Key'', apiKey inst), (''Content-Type'', ''application/json'')],
      body = Some pl\<rparr>"

definition addSeries ::
  "(request \<Rightarrow> fetch_result) \<Rightarrow> SonarrInstance option \<Rightarrow> SeriesLookup \<Rightarrow> int \<Rightarrow> string
     \<Rightarrow> int \<Rightarrow> series_type \<Rightarrow> bool \<Rightarrow> bool option \<Rightarrow> bool option \<Rightarrow> Season list option
     \<Rightarrow> (js_error + json) \<times> effect list" where
  "addSeries fetch instance series qualityProfileId' rootFolderPath languageProfileId'
       seriesType' seasonFolder' monitored' searchOnAdd monitorSeasons =
     (case instance of
        None \<Rightarrow> (Inl (Error ''Invalid Sonarr instance configuration''), [])
      | Some inst \<Rightarrow>
          if url inst = [] \<or> apiKey inst = []
          then (Inl (Error ''Invalid Sonarr instance configuration''), [])
          else
            let pl = addSeries_payload series qualityProfileId' rootFolderPath
                       languageProfileId' seriesType' seasonFolder' monitored' searchOnAdd
                       monitorSeasons;
                rq = addSeries_request inst pl;
                attempt =
                  (case fetch rq of
                     Rejected m \<Rightarrow> Inl (Error m)
                   | Resolved response \<Rightarrow>
                       if \<not> ok response
                       then (case text_body response of
                               Inl m \<Rightarrow> Inl (Error m)
                             | Inr errorBody \<Rightarrow>
                                 Inl (http_error (response.status response) errorBody))
                       else (case json_body response of
                               Inl m \<Rightarrow> Inl (Error m)
                             | Inr addedSeries \<Rightarrow> Inr addedSeries))
            in (case attempt of
                  Inr addedSeries \<Rightarrow>
                    (Inr addedSeries,
                     [Fetch rq,
                      ShowToast Success ''Series Added''
                        (SeriesLookup.title series @ '' ('' @ show_int (SeriesLookup.year series)
                           @ '') added to '' @ name inst)])
                | Inl (Error m) \<Rightarrow>
                    (Inl (Error m),
                     [Fetch rq,
                      ConsoleError ''Add series error:'',
                      ShowToast Failure ''Failed to Add Series''
                        (''Could not add '' @ SeriesLookup.title series @ '': '' @ m)])))"

definition removeQueueItem_request ::
  "SonarrInstance \<Rightarrow> int \<Rightarrow> bool option \<Rightarrow> bool option \<Rightarrow> request" where
  "removeQueueItem_request inst id' removeFromClient blocklist =
     \<lparr>url_request = url inst @ ''/api/v3/queue/'' @ show_int id'
                     @ ''?removeFromClient='' @ show_bool (default_true removeFromClient)
                     @ ''&blocklist='' @ show_bool (default_true blocklist),
      method_request = DELETE,
      headers = [(''X-Api-Key'', apiKey inst)],
      body = None\<rparr>"

definition removeQueueItem ::
  "(request \<Rightarrow> fetch_result) \<Rightarrow> SonarrInstance option \<Rightarrow> int \<Rightarrow> bool option \<Rightarrow> bool option
     \<Rightarrow> (js_error + unit) \<times> effect list" where
  "removeQueueItem fetch instance id' removeFromClient blocklist =
     (case instance of
        None \<Rightarrow> (Inl (Error ''Invalid Sonarr instance configuration''), [])
      | Some inst \<Rightarrow>
          if url inst = [] \<or> apiKey inst = []
          then (Inl (Error ''Invalid Sonarr instance configuration''), [])
          else
            let rq = removeQueueItem_request inst id' removeFromClient blocklist;
                attempt =
                  (case fetch rq of
                     Rejected m \<Rightarrow> Inl (Error m)
                   | Resolved response \<Rightarrow>
                       if \<not> ok response
                       then Inl (http_error (response.status response) (statusText response))
                       else Inr ())
            in (case attempt of
                  Inr u \<Rightarrow>
                    (Inr (),
                     [Fetch rq,
                      ShowToast Success ''Queue Item Removed''
                        ''Item removed from download queue''])
                | Inl (Error m) \<Rightarrow>
                    (Inl (Error m),
                     [Fetch rq,
                      ConsoleError ''Remove queue item error:'',
                      ShowToast Failure ''Failed to Remove Item'' m])))"

text \<open>The payload of the first request among the effects of a call, if it has one.\<close>

fun sent_payload :: "effect list \<Rightarrow> payload option" where
  "sent_payload [] = None"
| "sent_payload (Fetch rq # es) = body rq"
| "sent_payload (e # es) = sent_payload es"

text \<open>Sample inputs.\<close>

definition nas :: SonarrInstance where
  "nas = \<lparr>name = ''Main'', url = ''http://nas:8989'', apiKey = ''k1'', isDefault = True\<rparr>"

definition unavailable :: response where
  "unavailable =
     \<lparr>response.status = 503, statusText = ''Service Unavailable'',
      text_body = Inr ''down'', json_body = Inl ''Unexpected token''\<rparr>"

definition example_series :: SeriesLookup where
  "example_series =
     \<lparr>SeriesLookup.title = ''Example'', sortTitle = ''example'', status = ''continuing'',
      overview = ''An example.'', network = None, airTime = None, images = [],
      seasons = [\<lparr>seasonNumber = 1, monitored = True, statistics = None\<rparr>],
      year = 2020, tvdbId = 42, imdbId = None, titleSlug = ''example''\<rparr>"

section \<open>Tracked reads (hooks/useSonarrAPI.ts)\<close>

text \<open>
  The optional third argument of \<open>useSonarrAPI\<close>, and what the hook hands to the
  library hook \<^verbatim>\<open>useFetch\<close>: the URL, the headers, the \<^verbatim>\<open>execute\<close> flag and the
  error callback (the effects it has on an error).
\<close>

record hook_options =
  execute :: "bool option"
  onError :: "(js_error \<Rightarrow> effect list) option"

record useFetch_args =
  url_arg :: string
  headers_arg :: "(string \<times> string) list"
  execute_arg :: bool
  onError_arg :: "js_error \<Rightarrow> effect list"

definition useSonarrAPI_args ::
  "SonarrInstance option \<Rightarrow> string \<Rightarrow> hook_options option \<Rightarrow> useFetch_args" where
  "useSonarrAPI_args instance endpoint options =
     (let shouldExecute =
            ((case instance of None \<Rightarrow> False | Some i \<Rightarrow> url i \<noteq> [] \<and> apiKey i \<noteq> [])
             \<and> (case options of None \<Rightarrow> True | Some opts \<Rightarrow> execute opts \<noteq> Some False));
          url' = (case instance of
                    None \<Rightarrow> []
                  | Some i \<Rightarrow> if url i \<noteq> [] then url i @ ''/api/v3'' @ endpoint else [])
      in \<lparr>url_arg = url',
          headers_arg =
            [(''X-Api-Key'', (case instance of None \<Rightarrow> [] | Some i \<Rightarrow> apiKey i)),
             (''Content-Type'', ''application/json'')],
          execute_arg = shouldExecute,
          onError_arg =
            (\<lambda>e. case e of Error m \<Rightarrow>
               [ConsoleError
                  (''Sonarr API Error ('' @
                   (case instance of
                      None \<Rightarrow> ''Unknown''
                    | Some i \<Rightarrow> if name i \<noteq> [] then name i else ''Unknown'') @ ''):''),
                ShowToast Failure ''Sonarr Error''
                  (''Failed to connect to '' @
                   (case instance of
                      None \<Rightarrow> ''Sonarr''
                    | Some i \<Rightarrow> if name i \<noteq> [] then name i else ''Sonarr'') @ '': '' @ m)]
               @ (case options of
                    None \<Rightarrow> []
                  | Some opts \<Rightarrow> (case onError opts of None \<Rightarrow> [] | Some f \<Rightarrow> f e)))\<rparr>)"

text \<open>
  Modelled from the spec: \<^verbatim>\<open>useFetch\<close> belongs to the library @raycast/utils and is not
  part of the sources. A tracked read with \<^verbatim>\<open>execute\<close> false issues no request and is
  not loading; otherwise the first render issues one GET request to the URL with the
  headers it was given and is loading.
\<close>

record APIResponse =
  data :: "json option"
  error :: "js_error option"
  isLoading :: bool

definition useFetch :: "useFetch_args \<Rightarrow> APIResponse \<times> effect list" where
  "useFetch args =
     (if execute_arg args
      then (\<lparr>data = None, error = None, isLoading = True\<rparr>,
            [Fetch \<lparr>url_request = url_arg args, method_request = GET,
                    headers = headers_arg args, body = None\<rparr>])
      else (\<lparr>data = None, error = None, isLoading = False\<rparr>, []))"

definition useSonarrAPI ::
  "SonarrInstance option \<Rightarrow> string \<Rightarrow> hook_options option \<Rightarrow> APIResponse \<times> effect list" where
  "useSonarrAPI instance endpoint options = useFetch (useSonarrAPI_args instance endpoint options)"

section \<open>Download progress (utils.ts)\<close>

text \<open>
  A JavaScript number is a binary64 value. A finite one is the rational number it
  denotes, the two zeros being the rational 0, which \<^verbatim>\<open>===\<close> does not tell apart
  either. The result of an operation is the exact result rounded to the nearest binary64
  value, a tie to the one with an even last digit; \<open>None\<close> stands for a result that is
  not finite (an infinity or NaN). The sizes of an item are finite binary64 values:
  rationals \<open>x\<close> with \<open>binary64 x = Some x\<close>, as every integer below \<open>2 ^ 53\<close> is.
\<close>

text \<open>The integer part of the binary logarithm of a positive natural number, and of a
  positive rational.\<close>

fun ilog2 :: "nat \<Rightarrow> nat" where
  "ilog2 n = (if n < 2 then 0 else Suc (ilog2 (n div 2)))"

declare ilog2.simps [simp del]

definition exponent :: "rat \<Rightarrow> int" where
  "exponent x =
     (if 1 \<le> x then int (ilog2 (nat \<lfloor>x\<rfloor>))
      else - int (Suc (ilog2 (nat \<lceil>1 / x\<rceil> - 1))))"

text \<open>The nearest integer, a tie to the even one.\<close>

definition rne :: "rat \<Rightarrow> int" where
  "rne x =
     (let n = \<lfloor>x\<rfloor>; r = x - of_int n
      in if r < 1 / 2 then n else if 1 / 2 < r then n + 1 else if even n then n else n + 1)"

text \<open>
  Rounding to binary64: 53 significant binary digits, the exponent of the leading digit
  not below -1022 (below it the values are subnormal, with the spacing of the smallest
  normal ones), and overflow from \<open>2 ^ 1024\<close> on.
\<close>

definition binary64 :: "rat \<Rightarrow> rat option" where
  "binary64 x =
     (if x = 0 then Some 0
      else
        let e = max (exponent \<bar>x\<bar>) (- 1022) - 52;
            y = of_int (rne (x / 2 powi e)) * 2 powi e
        in if \<bar>y\<bar> < 2 powi 1024 then Some y else None)"

text \<open>Subtraction, multiplication and division of finite numbers; dividing by zero
  gives an infinity or NaN.\<close>

definition number_sub :: "rat \<Rightarrow> rat \<Rightarrow> rat option" where
  "number_sub a b = binary64 (a - b)"

definition number_mul :: "rat \<Rightarrow> rat \<Rightarrow> rat option" where
  "number_mul a b = binary64 (a * b)"

definition number_div :: "rat \<Rightarrow> rat \<Rightarrow> rat option" where
  "number_div a b = (if b = 0 then None else binary64 (a / b))"

text \<open>\<^verbatim>\<open>Math.round\<close> gives the nearest integer, a tie towards plus infinity; the
  integer is always a binary64 value.\<close>

definition Math_round :: "rat \<Rightarrow> int" where
  "Math_round x = \<lfloor>x + 1 / 2\<rfloor>"

definition getDownloadProgress :: "'a sized_scheme \<Rightarrow> rat option" where
  "getDownloadProgress item =
     (if size_item item = 0 then Some 0
      else do {
        d \<leftarrow> number_sub (size_item item) (sizeleft item);
        q \<leftarrow> number_div d (size_item item);
        progress \<leftarrow> number_mul q 100;
        s \<leftarrow> number_mul progress 100;
        number_div (of_int (Math_round s)) 100
      })"

section \<open>Polling of the download queue (download-queue.tsx)\<close>

text \<open>
  The calls a user action or a timer callback makes on the hooks of the view.
  The Refresh action of the view has \<^verbatim>\<open>onAction={mutate}\<close>.
\<close>

datatype hook_call = Mutate | SwitchToInstance SonarrInstance | RemoveQueueItem int bool bool

definition refresh_action :: "hook_call list" where
  "refresh_action = [Mutate]"

text \<open>The interval timers of the runtime: \<^verbatim>\<open>setInterval\<close> registers a callback and
  returns its handle, \<^verbatim>\<open>clearInterval\<close> removes the timer with that handle.\<close>

record interval_timer =
  handle :: nat
  delay :: nat
  callback :: "hook_call list"

record timers =
  active :: "interval_timer list"
  next_handle :: nat

definition setInterval :: "hook_call list \<Rightarrow> nat \<Rightarrow> timers \<Rightarrow> nat \<times> timers" where
  "setInterval cb ms ts =
     (next_handle ts,
      \<lparr>active = active ts @ [\<lparr>handle = next_handle ts, delay = ms, callback = cb\<rparr>],
       next_handle = Suc (next_handle ts)\<rparr>)"

definition clearInterval :: "nat \<Rightarrow> timers \<Rightarrow> timers" where
  "clearInterval h ts = ts\<lparr>active := filter (\<lambda>t. handle t \<noteq> h) (active ts)\<rparr>"

text \<open>\<^verbatim>\<open>queueResponse?.records || []\<close>: no data yet is the empty list.\<close>

definition queueItems_of :: "QueueItem list option \<Rightarrow> QueueItem list" where
  "queueItems_of queueResponse = (case queueResponse of None \<Rightarrow> [] | Some records \<Rightarrow> records)"

text \<open>
  The body of the effect: it returns its cleanup, which is the handle to clear, or
  nothing when no timer was set.
\<close>

definition polling_effect :: "QueueItem list \<Rightarrow> timers \<Rightarrow> nat option \<times> timers" where
  "polling_effect queueItems ts =
     (let hasActiveDownloads =
            list_ex (\<lambda>item. QueueItem.status item = ''downloading'') queueItems
      in if hasActiveDownloads
         then (case setInterval [Mutate] 5000 ts of (interval, ts') \<Rightarrow> (Some interval, ts'))
         else (None, ts))"

text \<open>
  The life cycle React gives an effect with the dependencies \<^verbatim>\<open>[queueItems, mutate]\<close>:
  when a render brings a new snapshot, the cleanup the previous run returned is called,
  then the body runs on the new snapshot; dismissing the view calls the last cleanup.
  A state is the pending cleanup and the timers.
\<close>

definition run_cleanup :: "nat option \<times> timers \<Rightarrow> timers" where
  "run_cleanup st = (case fst st of None \<Rightarrow> snd st | Some h \<Rightarrow> clearInterval h (snd st))"

definition render :: "nat option \<times> timers \<Rightarrow> QueueItem list option \<Rightarrow> nat option \<times> timers" where
  "render st queueResponse = polling_effect (queueItems_of queueResponse) (run_cleanup st)"

definition dismiss :: "nat option \<times> timers \<Rightarrow> nat option \<times> timers" where
  "dismiss st = (None, run_cleanup st)"

definition mounted :: "nat option \<times> timers" where
  "mounted = (None, \<lparr>active = [], next_handle = 0\<rparr>)"

definition renders :: "QueueItem list option list \<Rightarrow> nat option \<times> timers" where
  "renders snapshots = foldl render mounted snapshots"

text \<open>What runs when the delay of the active timers elapses.\<close>

definition tick :: "nat option \<times> timers \<Rightarrow> hook_call list" where
  "tick st = concat (map callback (active (snd st)))"

definition polling :: "nat option \<times> timers \<Rightarrow> bool" where
  "polling st = (active (snd st) \<noteq> [])"

definition has_downloading :: "QueueItem list option \<Rightarrow> bool" where
  "has_downloading queueResponse =
     list_ex (\<lambda>item. QueueItem.status item = ''downloading'') (queueItems_of queueResponse)"

text \<open>The timer the effect sets, and the states in which the only active timer is the one
  the pending cleanup will clear.\<close>

definition queue_timer :: "nat \<Rightarrow> interval_timer" where
  "queue_timer h = \<lparr>handle = h, delay = 5000, callback = [Mutate]\<rparr>"

definition settled :: "nat option \<times> timers \<Rightarrow> bool" where
  "settled st =
     (active (snd st) = (case fst st of None \<Rightarrow> [] | Some h \<Rightarrow> [queue_timer h]))"

text \<open>Sample queue items.\<close>

definition downloading_item :: QueueItem where
  "downloading_item =
     \<lparr>size_item = 1024, sizeleft = 256, id_item = 7, QueueItem.title = ''Example S01E01'',
      QueueItem.status = ''downloading'', timeleft = Some ''00:15:30''\<rparr>"

definition completed_item :: QueueItem where
  "completed_item = downloading_item\<lparr>sizeleft := 0, QueueItem.status := ''completed'', timeleft := None\<rparr>"

section \<open>Properties of the instance registry\<close>

lemma getSonarrInstances_eq:
  "getSonarrInstances p =
     (if \<not> primary_complete p
      then Inl (Error ''Primary Sonarr instance configuration is incomplete'')
      else if truthy_flag (enableSecondaryInstance p) \<and> secondary_complete p
      then Inr [primary_of p, secondary_of p]
      else Inr [primary_of p])"
  by (simp add: getSonarrInstances_def primary_complete_def secondary_complete_def
      primary_of_def secondary_of_def Let_def)

lemma getActiveSonarrInstance_eq:
  "getActiveSonarrInstance p =
     (if \<not> primary_complete p
      then Inl (Error ''Primary Sonarr instance configuration is incomplete'')
      else if activeInstance p = Some ''secondary'' \<and> truthy_flag (enableSecondaryInstance p)
              \<and> secondary_complete p
      then Inr (secondary_of p)
      else Inr (primary_of p))"
  by (simp add: getActiveSonarrInstance_def getSonarrInstances_eq)

lemma primary_secondary_distinct: "secondary_of p \<noteq> primary_of p"
  by (simp add: primary_of_def secondary_of_def)

lemma replace_trailing_slash_single:
  "\<not> ends_with_slash u \<Longrightarrow> replace_trailing_slash (u @ ''/'') = u"
  by (simp add: replace_trailing_slash_def)

lemma no_double_slash_junction:
  assumes "\<not> ends_with_slash u"
  shows "u @ ''/api/v3'' @ endpoint \<noteq> pre @ ''//api/v3'' @ endpoint"
proof
  assume "u @ ''/api/v3'' @ endpoint = pre @ ''//api/v3'' @ endpoint"
  then have "u @ (''/api/v3'' @ endpoint) = (pre @ ''/'') @ (''/api/v3'' @ endpoint)"
    by simp
  then have "u = pre @ ''/''"
    by (simp only: append_same_eq)
  with assms show False
    by (simp add: ends_with_slash_def)
qed

lemma getSonarrInstances_nth_url:
  assumes "getSonarrInstances p = Inr instances" and "i < length instances"
  shows "url (instances ! i) =
           replace_trailing_slash (str_of ([primaryInstanceUrl p, secondaryInstanceUrl p] ! i))"
proof -
  from assms have "i = 0 \<or> (i = 1 \<and> instances = [primary_of p, secondary_of p])"
    by (auto simp add: getSonarrInstances_eq split: if_splits)
  moreover from assms have "instances ! 0 = primary_of p"
    by (auto simp add: getSonarrInstances_eq split: if_splits)
  ultimately show ?thesis
    by (auto simp add: primary_of_def secondary_of_def)
qed

text \<open>
  Claim C2, as amended. When the primary instance is completely configured,
  \<open>getActiveSonarrInstance\<close> returns the secondary instance if and only if the
  configuration enables the secondary, selects it as active and sets its name, URL and
  API key; in every other case it returns the primary. When the primary is incompletely
  configured, \<open>getSonarrInstances\<close> and \<open>getActiveSonarrInstance\<close> both fail with the
  configuration error, and return no list.
\<close>

theorem active_instance_selection:
  "(primary_complete p \<longrightarrow>
      (getActiveSonarrInstance p = Inr (secondary_of p) \<longleftrightarrow>
         truthy_flag (enableSecondaryInstance p) \<and> activeInstance p = Some ''secondary''
         \<and> secondary_complete p)
      \<and> (getActiveSonarrInstance p \<noteq> Inr (secondary_of p) \<longrightarrow>
           getActiveSonarrInstance p = Inr (primary_of p)))
   \<and> (\<not> primary_complete p \<longrightarrow>
        getSonarrInstances p = Inl (Error ''Primary Sonarr instance configuration is incomplete'')
        \<and> getActiveSonarrInstance p =
            Inl (Error ''Primary Sonarr instance configuration is incomplete''))"
  using primary_secondary_distinct [of p]
  by (auto simp add: getActiveSonarrInstance_eq getSonarrInstances_eq)

text \<open>The selection at a configuration with both instances, and the failure at one whose
  primary URL is not set.\<close>

theorem active_instance_selection_witness:
  "primary_complete prefs_both
   \<and> getActiveSonarrInstance prefs_both =
       Inr \<lparr>name = ''4K'', url = ''http://nas:8990'', apiKey = ''k2'', isDefault = False\<rparr>
   \<and> \<not> primary_complete prefs_no_primary_url
   \<and> getSonarrInstances prefs_no_primary_url =
       Inl (Error ''Primary Sonarr instance configuration is incomplete'')
   \<and> getActiveSonarrInstance prefs_no_primary_url =
       Inl (Error ''Primary Sonarr instance configuration is incomplete'')"
  using active_instance_selection [of prefs_both]
    active_instance_selection [of prefs_no_primary_url]
  by (simp add: prefs_both_def prefs_no_primary_url_def prefs_primary_only_def
      primary_complete_def secondary_complete_def secondary_of_def
      replace_trailing_slash_def)

text \<open>
  Claim C2 as stated fails: this configuration marks the secondary enabled and active but
  leaves its URL unset, and the primary instance is returned.
\<close>

theorem secondary_enabled_active_returns_primary:
  "truthy_flag (enableSecondaryInstance prefs_secondary_no_url)
   \<and> activeInstance prefs_secondary_no_url = Some ''secondary''
   \<and> getActiveSonarrInstance prefs_secondary_no_url =
       Inr \<lparr>name = ''Main'', url = ''http://nas:8989'', apiKey = ''k1'', isDefault = True\<rparr>"
  by (simp add: getActiveSonarrInstance_def getSonarrInstances_def
      prefs_secondary_no_url_def prefs_both_def prefs_primary_only_def
      replace_trailing_slash_def)

text \<open>
  Claim C3, as amended. For every configured instance whose URL ends in exactly one
  slash, the stored URL is the URL without that slash, it has no trailing slash, and
  joining it to an endpoint path under \<^verbatim>\<open>/api/v3\<close> puts no double slash at the
  junction.
\<close>

theorem single_trailing_slash_normalized:
  assumes "getSonarrInstances p = Inr instances"
    and "i < length instances"
    and "[primaryInstanceUrl p, secondaryInstanceUrl p] ! i = Some (u @ ''/'')"
    and "\<not> ends_with_slash u"
  shows "url (instances ! i) = u
         \<and> \<not> ends_with_slash (url (instances ! i))
         \<and> (\<forall>endpoint pre.
               url (instances ! i) @ ''/api/v3'' @ endpoint \<noteq> pre @ ''//api/v3'' @ endpoint)"
proof -
  have "url (instances ! i) = replace_trailing_slash (u @ ''/'')"
    using getSonarrInstances_nth_url [OF assms(1,2)] assms(3) by simp
  then have "url (instances ! i) = u"
    using assms(4) by (simp add: replace_trailing_slash_single)
  then show ?thesis
    using assms(4) no_double_slash_junction by simp
qed

text \<open>The secondary instance of a configuration with both instances.\<close>

theorem single_trailing_slash_normalized_witness:
  "getSonarrInstances prefs_both =
     Inr [\<lparr>name = ''Main'', url = ''http://nas:8989'', apiKey = ''k1'', isDefault = True\<rparr>,
          \<lparr>name = ''4K'', url = ''http://nas:8990'', apiKey = ''k2'', isDefault = False\<rparr>]
   \<and> [primaryInstanceUrl prefs_both, secondaryInstanceUrl prefs_both] ! 1
       = Some (''http://nas:8990'' @ ''/'')
   \<and> \<not> ends_with_slash ''http://nas:8990''
   \<and> url ([\<lparr>name = ''Main'', url = ''http://nas:8989'', apiKey = ''k1'', isDefault = True\<rparr>,
          \<lparr>name = ''4K'', url = ''http://nas:8990'', apiKey = ''k2'', isDefault = False\<rparr>] ! 1)
       = ''http://nas:8990''
   \<and> url ([\<lparr>name = ''Main'', url = ''http://nas:8989'', apiKey = ''k1'', isDefault = True\<rparr>,
          \<lparr>name = ''4K'', url = ''http://nas:8990'', apiKey = ''k2'', isDefault = False\<rparr>] ! 1)
         @ ''/api/v3'' @ ''/series''
       = ''http://nas:8990/api/v3/series''"
proof -
  have a: "getSonarrInstances prefs_both =
     Inr [\<lparr>name = ''Main'', url = ''http://nas:8989'', apiKey = ''k1'', isDefault = True\<rparr>,
          \<lparr>name = ''4K'', url = ''http://nas:8990'', apiKey = ''k2'', isDefault = False\<rparr>]"
    by (simp add: getSonarrInstances_def prefs_both_def prefs_primary_only_def
        replace_trailing_slash_def)
  have b: "(1::nat) < length
     [\<lparr>name = ''Main'', url = ''http://nas:8989'', apiKey = ''k1'', isDefault = True\<rparr>,
      \<lparr>name = ''4K'', url = ''http://nas:8990'', apiKey = ''k2'', isDefault = False\<rparr>]"
    by simp
  have c: "[primaryInstanceUrl prefs_both, secondaryInstanceUrl prefs_both] ! 1
       = Some (''http://nas:8990'' @ ''/'')"
    by (simp add: prefs_both_def prefs_primary_only_def)
  have d: "\<not> ends_with_slash ''http://nas:8990''"
    by (simp add: ends_with_slash_def)
  from single_trailing_slash_normalized [OF a b c d] a c d show ?thesis
    by simp
qed

text \<open>
  Claim C3 as stated fails: of two trailing slashes only the last is removed, the stored
  URL still ends in a slash, and the request URL has a double slash before \<^verbatim>\<open>api\<close>.
\<close>

theorem double_trailing_slash_kept:
  "primaryInstanceUrl prefs_double_slash = Some ''http://nas:8989//''
   \<and> getSonarrInstances prefs_double_slash =
       Inr [\<lparr>name = ''Main'', url = ''http://nas:8989/'', apiKey = ''k1'', isDefault = True\<rparr>]
   \<and> ends_with_slash
        (url \<lparr>name = ''Main'', url = ''http://nas:8989/'', apiKey = ''k1'', isDefault = True\<rparr>)
   \<and> url \<lparr>name = ''Main'', url = ''http://nas:8989/'', apiKey = ''k1'', isDefault = True\<rparr>
         @ ''/api/v3'' @ ''/series''
       = ''http://nas:8989//api/v3/series''"
  by (simp add: getSonarrInstances_def prefs_double_slash_def prefs_primary_only_def
      replace_trailing_slash_def ends_with_slash_def)

text \<open>
  Claim C10. \<open>getActiveSonarrInstance\<close> never fails with "No Sonarr instances
  configured": \<open>getSonarrInstances\<close> either fails, on an incomplete primary
  configuration, or returns a list of one or two instances whose first element is the
  primary, with \<open>isDefault\<close> true, and then \<open>getActiveSonarrInstance\<close> returns one of
  the instances of the list.
\<close>

theorem no_instances_branch_unreachable:
  "getActiveSonarrInstance p \<noteq> Inl (Error ''No Sonarr instances configured'')
   \<and> (\<forall>e. getSonarrInstances p = Inl e \<longrightarrow>
          e = Error ''Primary Sonarr instance configuration is incomplete''
          \<and> \<not> primary_complete p)
   \<and> (\<forall>instances. getSonarrInstances p = Inr instances \<longrightarrow>
          primary_complete p
          \<and> instances \<noteq> []
          \<and> instances ! 0 = primary_of p
          \<and> isDefault (instances ! 0)
          \<and> (length instances = 1 \<or> length instances = 2)
          \<and> (\<exists>inst. getActiveSonarrInstance p = Inr inst \<and> inst \<in> set instances))"
  by (auto simp add: getActiveSonarrInstance_eq getSonarrInstances_eq primary_of_def
      split: if_splits)

text \<open>The configuration with the primary instance only.\<close>

theorem no_instances_branch_unreachable_witness:
  "getSonarrInstances prefs_primary_only =
     Inr [\<lparr>name = ''Main'', url = ''http://nas:8989'', apiKey = ''k1'', isDefault = True\<rparr>]
   \<and> getActiveSonarrInstance prefs_primary_only =
       Inr \<lparr>name = ''Main'', url = ''http://nas:8989'', apiKey = ''k1'', isDefault = True\<rparr>
   \<and> getActiveSonarrInstance prefs_primary_only \<noteq> Inl (Error ''No Sonarr instances configured'')
   \<and> primary_complete prefs_primary_only"
proof -
  have a: "getSonarrInstances prefs_primary_only =
     Inr [\<lparr>name = ''Main'', url = ''http://nas:8989'', apiKey = ''k1'', isDefault = True\<rparr>]"
    by (simp add: getSonarrInstances_def prefs_primary_only_def replace_trailing_slash_def)
  have b: "primary_of prefs_primary_only =
     \<lparr>name = ''Main'', url = ''http://nas:8989'', apiKey = ''k1'', isDefault = True\<rparr>"
    by (simp add: primary_of_def prefs_primary_only_def replace_trailing_slash_def)
  from no_instances_branch_unreachable [of prefs_primary_only] a b show ?thesis
    by auto
qed

section \<open>Properties of the one-shot operations\<close>

lemma invalid_instance_Some:
  "invalid_instance (Some inst) \<longleftrightarrow> url inst = [] \<or> apiKey inst = []"
  by (simp add: invalid_instance_def)

lemma searchSeries_invalid:
  "invalid_instance instance \<Longrightarrow>
     searchSeries fetch instance query =
       (Inl (Error ''Invalid Sonarr instance configuration''), [])"
  by (auto simp add: searchSeries_def invalid_instance_def split: option.splits)

lemma searchSeries_valid_returns:
  assumes "\<not> invalid_instance (Some inst)"
  shows "\<exists>xs rest. searchSeries fetch (Some inst) query =
           (Inr xs, Fetch (searchSeries_request inst query) # rest)"
  using assms
  by (auto simp add: searchSeries_def invalid_instance_def Let_def http_error_def
      split: fetch_result.splits sum.splits js_error.splits)

lemma searchSeries_failure_empty:
  assumes "\<not> invalid_instance (Some inst)"
    and "(\<exists>m. fetch (searchSeries_request inst query) = Rejected m)
         \<or> (\<exists>r. fetch (searchSeries_request inst query) = Resolved r
                \<and> (\<not> ok r \<or> (\<exists>m. json_body r = Inl m)))"
  shows "searchSeries fetch (Some inst) query =
           (Inr [],
            [Fetch (searchSeries_request inst query),
             ConsoleError ''Series search error:'',
             ShowToast Failure ''Search Failed''
               (''Failed to search series: '' @
                (case fetch (searchSeries_request inst query) of
                   Rejected m \<Rightarrow> m
                 | Resolved r \<Rightarrow>
                     if \<not> ok r
                     then ''HTTP '' @ show_nat (response.status r) @ '': '' @ statusText r
                     else (case json_body r of Inl m \<Rightarrow> m | Inr j \<Rightarrow> [])))])"
  using assms
  by (auto simp add: searchSeries_def invalid_instance_def Let_def http_error_def)

lemma show_nat_503: "show_nat 503 = ''503''"
  by (simp add: show_nat.simps digit_char_def)

lemma show_int_7: "show_int 7 = ''7''"
  by (simp add: show_int_def show_nat.simps digit_char_def)

lemma encode_lost: "encodeURIComponent ''lost girl'' = ''lost%20girl''"
  by (simp add: encodeURIComponent_def uri_unreserved_def hex_char_def)

text \<open>
  Claim C1, as amended. With an instance that is absent or lacks its URL or API key,
  \<open>searchSeries\<close> throws "Invalid Sonarr instance configuration" and issues no request.
  With a valid instance it never throws: it issues the lookup request and returns a
  sequence, which is empty whenever the transport fails, the HTTP status is not a
  success, or the body cannot be read as JSON.
\<close>

theorem searchSeries_swallows_request_failures:
  "(invalid_instance instance \<longrightarrow>
      searchSeries fetch instance query =
        (Inl (Error ''Invalid Sonarr instance configuration''), []))
   \<and> (\<forall>inst. instance = Some inst \<and> \<not> invalid_instance instance \<longrightarrow>
         (\<exists>xs rest. searchSeries fetch instance query =
            (Inr xs, Fetch (searchSeries_request inst query) # rest))
         \<and> ((\<exists>m. fetch (searchSeries_request inst query) = Rejected m)
              \<or> (\<exists>r. fetch (searchSeries_request inst query) = Resolved r
                     \<and> (\<not> ok r \<or> (\<exists>m. json_body r = Inl m)))
            \<longrightarrow> fst (searchSeries fetch instance query) = Inr []))"
proof (intro conjI impI allI)
  assume "invalid_instance instance"
  then show "searchSeries fetch instance query =
      (Inl (Error ''Invalid Sonarr instance configuration''), [])"
    by (rule searchSeries_invalid)
next
  fix inst
  assume "instance = Some inst \<and> \<not> invalid_instance instance"
  then have "instance = Some inst" and "\<not> invalid_instance (Some inst)"
    by auto
  then show "\<exists>xs rest. searchSeries fetch instance query =
      (Inr xs, Fetch (searchSeries_request inst query) # rest)"
    using searchSeries_valid_returns [of inst fetch query] by simp
next
  fix inst
  assume v: "instance = Some inst \<and> \<not> invalid_instance instance"
    and f: "(\<exists>m. fetch (searchSeries_request inst query) = Rejected m)
         \<or> (\<exists>r. fetch (searchSeries_request inst query) = Resolved r
                \<and> (\<not> ok r \<or> (\<exists>m. json_body r = Inl m)))"
  from v have i: "instance = Some inst" and "\<not> invalid_instance (Some inst)"
    by auto
  then have "fst (searchSeries fetch (Some inst) query) = Inr []"
    using searchSeries_failure_empty [of inst fetch query] f by simp
  with i show "fst (searchSeries fetch instance query) = Inr []"
    by simp
qed

text \<open>A search answered with status 503, and a search without an instance.\<close>

theorem searchSeries_swallows_request_failures_witness:
  "\<not> invalid_instance (Some nas)
   \<and> \<not> ok unavailable
   \<and> searchSeries (\<lambda>rq. Resolved unavailable) (Some nas) ''lost girl'' =
       (Inr [],
        [Fetch \<lparr>url_request = ''http://nas:8989/api/v3/series/lookup?term=lost%20girl'',
                method_request = GET,
                headers = [(''X-Api-Key'', ''k1''), (''Content-Type'', ''application/json'')],
                body = None\<rparr>,
         ConsoleError ''Series search error:'',
         ShowToast Failure ''Search Failed''
           ''Failed to search series: HTTP 503: Service Unavailable''])
   \<and> invalid_instance None
   \<and> searchSeries (\<lambda>rq. Resolved unavailable) None ''lost girl'' =
       (Inl (Error ''Invalid Sonarr instance configuration''), [])"
proof -
  have a: "\<not> invalid_instance (Some nas)"
    by (simp add: invalid_instance_def nas_def)
  have b: "\<not> ok unavailable"
    by (simp add: ok_def unavailable_def)
  have c: "searchSeries (\<lambda>rq. Resolved unavailable) (Some nas) ''lost girl'' =
       (Inr [],
        [Fetch \<lparr>url_request = ''http://nas:8989/api/v3/series/lookup?term=lost%20girl'',
                method_request = GET,
                headers = [(''X-Api-Key'', ''k1''), (''Content-Type'', ''application/json'')],
                body = None\<rparr>,
         ConsoleError ''Series search error:'',
         ShowToast Failure ''Search Failed''
           ''Failed to search series: HTTP 503: Service Unavailable''])"
    by (simp add: searchSeries_def searchSeries_request_def nas_def unavailable_def ok_def
        http_error_def show_nat_503 encode_lost Let_def)
  have d: "invalid_instance None"
    by (simp add: invalid_instance_def)
  from searchSeries_swallows_request_failures
    [of None "\<lambda>rq. Resolved unavailable" "''lost girl''"]
    searchSeries_swallows_request_failures
    [of "Some nas" "\<lambda>rq. Resolved unavailable" "''lost girl''"]
    a b c d
  show ?thesis by simp
qed

text \<open>
  Claim C1 as stated fails: without an instance, or with an instance without an API key,
  the call throws and does not return the empty sequence.
\<close>

theorem searchSeries_invalid_instance_throws:
  "invalid_instance None
   \<and> searchSeries (\<lambda>rq. Rejected ''offline'') None ''lost girl'' =
       (Inl (Error ''Invalid Sonarr instance configuration''), [])
   \<and> invalid_instance (Some (nas\<lparr>apiKey := []\<rparr>))
   \<and> fst (searchSeries (\<lambda>rq. Rejected ''offline'') (Some (nas\<lparr>apiKey := []\<rparr>)) ''lost girl'')
       \<noteq> Inr []"
  by (simp add: searchSeries_def invalid_instance_def nas_def)

lemma addSeries_effects_head:
  assumes "\<not> invalid_instance (Some inst)"
  shows "\<exists>rest. snd (addSeries fetch (Some inst) series q rootFolderPath l st sf mon soa ms) =
           Fetch (addSeries_request inst (addSeries_payload series q rootFolderPath l st sf mon soa ms))
             # rest"
  using assms
  by (auto simp add: addSeries_def invalid_instance_def Let_def http_error_def
      split: fetch_result.splits sum.splits js_error.splits)

lemma addSeries_sent_payload:
  assumes "\<not> invalid_instance (Some inst)"
  shows "sent_payload (snd (addSeries fetch (Some inst) series q rootFolderPath l st sf mon soa ms)) =
           Some (addSeries_payload series q rootFolderPath l st sf mon soa ms)"
proof -
  from addSeries_effects_head [OF assms, of fetch series q rootFolderPath l st sf mon soa ms]
  obtain rest where "snd (addSeries fetch (Some inst) series q rootFolderPath l st sf mon soa ms) =
      Fetch (addSeries_request inst (addSeries_payload series q rootFolderPath l st sf mon soa ms)) # rest"
    by blast
  then show ?thesis
    by (simp add: addSeries_request_def)
qed

text \<open>
  Claim C5, as amended. For every \<open>addSeries\<close> call with a valid instance, a lookup
  result and a root folder path, the payload sent has \<open>path\<close> equal to the root folder
  path, a slash and the title of the series, and \<open>title\<close> and \<open>images\<close> copied from the
  lookup result; \<open>seasons\<close> is copied from the lookup result when the caller passes no
  \<open>monitorSeasons\<close>, and is \<open>monitorSeasons\<close> when the caller passes it.
\<close>

theorem addSeries_payload_fields:
  assumes "instance = Some inst" and "\<not> invalid_instance instance"
  shows "\<exists>pl. sent_payload
                (snd (addSeries fetch instance series q rootFolderPath l st sf mon soa ms))
              = Some pl
          \<and> path pl = rootFolderPath @ ''/'' @ SeriesLookup.title series
          \<and> payload.title pl = SeriesLookup.title series
          \<and> payload.images pl = SeriesLookup.images series
          \<and> payload.seasons pl =
              (case ms of None \<Rightarrow> SeriesLookup.seasons series | Some monitorSeasons \<Rightarrow> monitorSeasons)"
proof -
  from assms have "\<not> invalid_instance (Some inst)" by auto
  then have "sent_payload
      (snd (addSeries fetch instance series q rootFolderPath l st sf mon soa ms))
      = Some (addSeries_payload series q rootFolderPath l st sf mon soa ms)"
    using assms(1) addSeries_sent_payload by simp
  then show ?thesis
    by (simp add: addSeries_payload_def split: option.splits)
qed

text \<open>The root folder \<^verbatim>\<open>/tv\<close> and the title \<^verbatim>\<open>Example\<close> give the path
  \<^verbatim>\<open>/tv/Example\<close>.\<close>

theorem addSeries_payload_fields_witness:
  "\<not> invalid_instance (Some nas)
   \<and> (\<exists>pl. sent_payload
               (snd (addSeries (\<lambda>rq. Resolved unavailable) (Some nas) example_series 1 ''/tv'' 1
                      standard True None None None))
             = Some pl
          \<and> path pl = ''/tv/Example''
          \<and> payload.title pl = ''Example''
          \<and> payload.images pl = []
          \<and> payload.seasons pl = [\<lparr>seasonNumber = 1, monitored = True, statistics = None\<rparr>])"
proof -
  have a: "\<not> invalid_instance (Some nas)"
    by (simp add: invalid_instance_def nas_def)
  from addSeries_payload_fields [OF refl a, of "\<lambda>rq. Resolved unavailable" example_series
      1 "''/tv''" 1 standard True None None None] a
  show ?thesis
    by (simp add: example_series_def)
qed

text \<open>
  Claim C5 as stated fails: when the caller passes \<open>monitorSeasons\<close>, the seasons of the
  payload are those and not the seasons of the lookup result.
\<close>

theorem addSeries_monitorSeasons_replace_seasons:
  "SeriesLookup.seasons example_series = [\<lparr>seasonNumber = 1, monitored = True, statistics = None\<rparr>]
   \<and> map_option payload.seasons
        (sent_payload
           (snd (addSeries (\<lambda>rq. Resolved unavailable) (Some nas) example_series 1 ''/tv'' 1
                  standard True None None
                  (Some [\<lparr>seasonNumber = 1, monitored = False, statistics = None\<rparr>]))))
       = Some [\<lparr>seasonNumber = 1, monitored = False, statistics = None\<rparr>]"
  by (simp add: addSeries_def addSeries_request_def addSeries_payload_def nas_def
      unavailable_def ok_def http_error_def example_series_def Let_def)

lemma removeQueueItem_failure:
  assumes "\<not> invalid_instance (Some inst)"
    and "fetch (removeQueueItem_request inst i rfc bl) = Resolved r"
    and "\<not> ok r"
  shows "removeQueueItem fetch (Some inst) i rfc bl =
           (Inl (Error (''HTTP '' @ show_nat (response.status r) @ '': '' @ statusText r)),
            [Fetch (removeQueueItem_request inst i rfc bl),
             ConsoleError ''Remove queue item error:'',
             ShowToast Failure ''Failed to Remove Item''
               (''HTTP '' @ show_nat (response.status r) @ '': '' @ statusText r)])"
  using assms
  by (simp add: removeQueueItem_def invalid_instance_def Let_def http_error_def)

text \<open>
  Claim C6. When \<open>removeQueueItem\<close>, called with a valid instance, receives a response
  whose status is outside 200 to 299, it throws an error whose message contains the
  status code, and the failure notification with that message is the last effect of the
  call, shown before the error reaches the caller. The request is a DELETE whose URL
  carries the flags \<^verbatim>\<open>removeFromClient\<close> and \<^verbatim>\<open>blocklist\<close>, both true when omitted.
\<close>

theorem removeQueueItem_non_2xx_throws_after_toast:
  assumes "instance = Some inst" and "\<not> invalid_instance instance"
    and "fetch (removeQueueItem_request inst i removeFromClient blocklist) = Resolved r"
    and "\<not> (200 \<le> response.status r \<and> response.status r \<le> 299)"
  shows "removeQueueItem fetch instance i removeFromClient blocklist =
           (Inl (Error (''HTTP '' @ show_nat (response.status r) @ '': '' @ statusText r)),
            [Fetch (removeQueueItem_request inst i removeFromClient blocklist),
             ConsoleError ''Remove queue item error:'',
             ShowToast Failure ''Failed to Remove Item''
               (''HTTP '' @ show_nat (response.status r) @ '': '' @ statusText r)])
         \<and> method_request (removeQueueItem_request inst i removeFromClient blocklist) = DELETE
         \<and> url_request (removeQueueItem_request inst i removeFromClient blocklist) =
             url inst @ ''/api/v3/queue/'' @ show_int i
               @ ''?removeFromClient='' @ show_bool (default_true removeFromClient)
               @ ''&blocklist='' @ show_bool (default_true blocklist)
         \<and> url_request (removeQueueItem_request inst i None None) =
             url inst @ ''/api/v3/queue/'' @ show_int i
               @ ''?removeFromClient=true&blocklist=true''"
proof -
  from assms(1,2) have v: "\<not> invalid_instance (Some inst)" by auto
  from assms(4) have "\<not> ok r" by (simp add: ok_def)
  with v assms(3)
  have "removeQueueItem fetch (Some inst) i removeFromClient blocklist =
           (Inl (Error (''HTTP '' @ show_nat (response.status r) @ '': '' @ statusText r)),
            [Fetch (removeQueueItem_request inst i removeFromClient blocklist),
             ConsoleError ''Remove queue item error:'',
             ShowToast Failure ''Failed to Remove Item''
               (''HTTP '' @ show_nat (response.status r) @ '': '' @ statusText r)])"
    by (rule removeQueueItem_failure [of inst fetch i removeFromClient blocklist r])
  with assms(1) show ?thesis
    by (simp add: removeQueueItem_request_def show_bool_def)
qed

text \<open>Removing item 7 with both flags omitted, answered with status 503.\<close>

theorem removeQueueItem_non_2xx_throws_after_toast_witness:
  "\<not> invalid_instance (Some nas)
   \<and> \<not> (200 \<le> response.status unavailable \<and> response.status unavailable \<le> 299)
   \<and> removeQueueItem (\<lambda>rq. Resolved unavailable) (Some nas) 7 None None =
       (Inl (Error ''HTTP 503: Service Unavailable''),
        [Fetch \<lparr>url_request = ''http://nas:8989/api/v3/queue/7?removeFromClient=true&blocklist=true'',
                method_request = DELETE,
                headers = [(''X-Api-Key'', ''k1'')],
                body = None\<rparr>,
         ConsoleError ''Remove queue item error:'',
         ShowToast Failure ''Failed to Remove Item'' ''HTTP 503: Service Unavailable''])"
proof -
  have a: "\<not> invalid_instance (Some nas)"
    by (simp add: invalid_instance_def nas_def)
  have b: "\<not> (200 \<le> response.status unavailable \<and> response.status unavailable \<le> 299)"
    by (simp add: unavailable_def)
  have d: "removeQueueItem_request nas 7 None None =
        \<lparr>url_request = ''http://nas:8989/api/v3/queue/7?removeFromClient=true&blocklist=true'',
         method_request = DELETE,
         headers = [(''X-Api-Key'', ''k1'')],
         body = None\<rparr>"
    by (simp add: removeQueueItem_request_def nas_def show_int_7 show_bool_def)
  have e: "show_nat (response.status unavailable) = ''503''"
    by (simp add: unavailable_def show_nat_503)
  have f: "statusText unavailable = ''Service Unavailable''"
    by (simp add: unavailable_def)
  from removeQueueItem_non_2xx_throws_after_toast
    [of "Some nas" nas "\<lambda>rq. Resolved unavailable" 7 None None unavailable] a b
  show ?thesis
    by (simp add: d e f)
qed

section \<open>Properties of the tracked reads\<close>

lemma useSonarrAPI_invalid:
  assumes "invalid_instance instance"
  shows "\<not> execute_arg (useSonarrAPI_args instance endpoint options)"
  using assms
  by (auto simp add: useSonarrAPI_args_def invalid_instance_def Let_def split: option.splits)

lemma useSonarrAPI_request:
  assumes "Fetch rq \<in> set (snd (useSonarrAPI instance endpoint options))"
  shows "\<exists>inst. instance = Some inst \<and> \<not> invalid_instance instance
           \<and> url_request rq = url inst @ ''/api/v3'' @ endpoint
           \<and> map_of (headers rq) ''X-Api-Key'' = Some (apiKey inst)"
proof (cases "execute_arg (useSonarrAPI_args instance endpoint options)")
  case False
  with assms show ?thesis
    by (simp add: useSonarrAPI_def useFetch_def)
next
  case True
  then obtain inst where i: "instance = Some inst" "url inst \<noteq> []" "apiKey inst \<noteq> []"
    by (auto simp add: useSonarrAPI_args_def Let_def split: option.splits)
  from True assms have "rq = \<lparr>url_request = url_arg (useSonarrAPI_args instance endpoint options),
      method_request = GET,
      headers = headers_arg (useSonarrAPI_args instance endpoint options), body = None\<rparr>"
    by (simp add: useSonarrAPI_def useFetch_def)
  with i show ?thesis
    by (simp add: useSonarrAPI_args_def invalid_instance_def Let_def)
qed

text \<open>
  Claim C7. When the instance is absent or lacks its URL or API key, \<open>useSonarrAPI\<close>
  passes \<^verbatim>\<open>execute\<close> false, so no request is issued and the read is not loading. Every
  request a tracked read issues targets the URL of the instance followed by
  \<^verbatim>\<open>/api/v3\<close> and the endpoint, and carries the header \<^verbatim>\<open>X-Api-Key\<close> set to the
  API key of the instance.
\<close>

theorem tracked_read_suppressed_or_addressed:
  "(invalid_instance instance \<longrightarrow>
      \<not> execute_arg (useSonarrAPI_args instance endpoint options)
      \<and> snd (useSonarrAPI instance endpoint options) = []
      \<and> \<not> isLoading (fst (useSonarrAPI instance endpoint options)))
   \<and> (\<forall>rq. Fetch rq \<in> set (snd (useSonarrAPI instance endpoint options)) \<longrightarrow>
         (\<exists>inst. instance = Some inst \<and> \<not> invalid_instance instance
            \<and> url_request rq = url inst @ ''/api/v3'' @ endpoint
            \<and> map_of (headers rq) ''X-Api-Key'' = Some (apiKey inst)))"
proof (intro conjI impI allI)
  assume "invalid_instance instance"
  then have n: "\<not> execute_arg (useSonarrAPI_args instance endpoint options)"
    by (rule useSonarrAPI_invalid)
  then show "\<not> execute_arg (useSonarrAPI_args instance endpoint options)" .
  from n show "snd (useSonarrAPI instance endpoint options) = []"
    by (simp add: useSonarrAPI_def useFetch_def)
  from n show "\<not> isLoading (fst (useSonarrAPI instance endpoint options))"
    by (simp add: useSonarrAPI_def useFetch_def)
next
  fix rq
  assume "Fetch rq \<in> set (snd (useSonarrAPI instance endpoint options))"
  then show "\<exists>inst. instance = Some inst \<and> \<not> invalid_instance instance
           \<and> url_request rq = url inst @ ''/api/v3'' @ endpoint
           \<and> map_of (headers rq) ''X-Api-Key'' = Some (apiKey inst)"
    by (rule useSonarrAPI_request)
qed

text \<open>A read of \<^verbatim>\<open>/series\<close> with an instance without API key, and with a valid one.\<close>

theorem tracked_read_suppressed_or_addressed_witness:
  "invalid_instance (Some (nas\<lparr>apiKey := []\<rparr>))
   \<and> snd (useSonarrAPI (Some (nas\<lparr>apiKey := []\<rparr>)) ''/series'' None) = []
   \<and> \<not> isLoading (fst (useSonarrAPI (Some (nas\<lparr>apiKey := []\<rparr>)) ''/series'' None))
   \<and> snd (useSonarrAPI (Some nas) ''/series'' None) =
       [Fetch \<lparr>url_request = ''http://nas:8989/api/v3/series'', method_request = GET,
               headers = [(''X-Api-Key'', ''k1''), (''Content-Type'', ''application/json'')],
               body = None\<rparr>]
   \<and> (\<exists>inst. Some nas = Some inst
         \<and> ''http://nas:8989/api/v3/series'' = url inst @ ''/api/v3'' @ ''/series''
         \<and> map_of [(''X-Api-Key'', ''k1''), (''Content-Type'', ''application/json'')] ''X-Api-Key''
             = Some (apiKey inst))"
proof -
  have a: "invalid_instance (Some (nas\<lparr>apiKey := []\<rparr>))"
    by (simp add: invalid_instance_def)
  have b: "snd (useSonarrAPI (Some nas) ''/series'' None) =
       [Fetch \<lparr>url_request = ''http://nas:8989/api/v3/series'', method_request = GET,
               headers = [(''X-Api-Key'', ''k1''), (''Content-Type'', ''application/json'')],
               body = None\<rparr>]"
    by (simp add: useSonarrAPI_def useFetch_def useSonarrAPI_args_def nas_def Let_def)
  from tracked_read_suppressed_or_addressed
      [of "Some (nas\<lparr>apiKey := []\<rparr>)" "''/series''" None]
    tracked_read_suppressed_or_addressed [of "Some nas" "''/series''" None] a b
  show ?thesis
    by (simp add: nas_def)
qed

section \<open>Properties of the download progress\<close>

subsection \<open>Rounding to binary64\<close>

lemma ilog2_bounds: "0 < n \<Longrightarrow> 2 ^ ilog2 n \<le> n \<and> n < 2 ^ Suc (ilog2 n)"
proof (induction n rule: ilog2.induct)
  case (1 n)
  show ?case
  proof (cases "n < 2")
    case True
    with "1.prems" have "n = 1" by simp
    then show ?thesis by (simp add: ilog2.simps)
  next
    case False
    then have pos: "0 < n div 2" by simp
    from "1.IH" [OF False pos]
    have lo: "2 ^ ilog2 (n div 2) \<le> n div 2" and hi: "n div 2 < 2 ^ Suc (ilog2 (n div 2))"
      by simp_all
    from False have eq: "ilog2 n = Suc (ilog2 (n div 2))"
      by (subst ilog2.simps) simp
    from lo have "2 * 2 ^ ilog2 (n div 2) \<le> n" by linarith
    moreover from hi have "n < 2 * 2 ^ Suc (ilog2 (n div 2))" by linarith
    ultimately show ?thesis by (simp add: eq)
  qed
qed

lemma exponent_bounds:
  assumes "0 < x"
  shows "2 powi exponent x \<le> x" and "x < 2 powi (exponent x + 1)"
proof -
  have "2 powi exponent x \<le> x \<and> x < 2 powi (exponent x + 1)"
  proof (cases "1 \<le> x")
    case True
    define n where "n = nat \<lfloor>x\<rfloor>"
    from True have n: "0 < n" "rat_of_nat n \<le> x" "x < rat_of_nat n + 1"
      unfolding n_def by (simp_all add: of_nat_nat) linarith+
    from ilog2_bounds [OF n(1)] have lo: "2 ^ ilog2 n \<le> n" and hi: "n + 1 \<le> 2 ^ Suc (ilog2 n)"
      by simp_all
    from lo have "(2::rat) ^ ilog2 n \<le> rat_of_nat n"
      by (metis of_nat_le_iff of_nat_power of_nat_numeral)
    then have a: "(2::rat) ^ ilog2 n \<le> x" using n(2) by linarith
    from hi have "rat_of_nat (n + 1) \<le> (2::rat) ^ Suc (ilog2 n)"
      by (metis of_nat_le_iff of_nat_power of_nat_numeral)
    then have b: "x < (2::rat) ^ Suc (ilog2 n)" using n(3) by simp
    have e: "exponent x = int (ilog2 n)" using True by (simp add: exponent_def n_def)
    have "2 powi (int (ilog2 n) + 1) = (2::rat) ^ Suc (ilog2 n)"
      by (simp add: power_int_add)
    with a b e show ?thesis by simp
  next
    case False
    with assms have x: "0 < x" "x < 1" by simp_all
    define m where "m = nat \<lceil>1 / x\<rceil>"
    from x have "1 < 1 / x" by simp
    then have c: "2 \<le> \<lceil>1 / x\<rceil>" by linarith
    then have m2: "2 \<le> m" unfolding m_def by linarith
    have mx: "1 / x \<le> rat_of_nat m" "rat_of_nat m - 1 < 1 / x"
      unfolding m_def using c by (simp_all add: of_nat_nat) linarith+
    define k where "k = ilog2 (m - 1)"
    from m2 have "0 < m - 1" by simp
    from ilog2_bounds [OF this] have lo: "2 ^ k \<le> m - 1" and hi': "m - 1 < 2 ^ Suc k"
      unfolding k_def by simp_all
    from hi' have hi: "m \<le> 2 ^ Suc k" by linarith
    from hi have "rat_of_nat m \<le> (2::rat) ^ Suc k"
      by (metis of_nat_le_iff of_nat_power of_nat_numeral)
    then have "1 / x \<le> 2 ^ Suc k" using mx(1) by linarith
    then have a: "1 / 2 ^ Suc k \<le> x" using x(1)
      by (simp add: field_simps)
    from lo have "(2::rat) ^ k \<le> rat_of_nat (m - 1)"
      by (metis of_nat_le_iff of_nat_power of_nat_numeral)
    then have "(2::rat) ^ k \<le> rat_of_nat m - 1" using m2 by (simp add: of_nat_diff)
    then have "2 ^ k < 1 / x" using mx(2) by linarith
    then have b: "x < 1 / 2 ^ k" using x(1)
      by (simp add: field_simps)
    have e: "exponent x = - int (Suc k)" using False by (simp add: exponent_def m_def k_def)
    have p1: "2 powi (- int (Suc k)) = 1 / (2::rat) ^ Suc k"
      by (simp only: power_int_minus power_int_of_nat inverse_eq_divide)
    have "- int (Suc k) + 1 = - int k" by simp
    then have p2: "2 powi (- int (Suc k) + 1) = 1 / (2::rat) ^ k"
      by (simp only: power_int_minus power_int_of_nat inverse_eq_divide)
    from a b show ?thesis unfolding e p1 p2 by simp
  qed
  then show "2 powi exponent x \<le> x" and "x < 2 powi (exponent x + 1)"
    by simp_all
qed

lemma powi2_less_imp: "(2::rat) powi a < 2 powi b \<Longrightarrow> a < b"
proof (rule ccontr)
  assume l: "(2::rat) powi a < 2 powi b" and "\<not> a < b"
  then have "b \<le> a" by simp
  then have "(2::rat) powi b \<le> 2 powi a" by (rule power_int_increasing) simp
  with l show False by simp
qed

lemma exponent_unique:
  assumes "2 powi e \<le> x" and "x < 2 powi (e + 1)"
  shows "exponent x = e"
proof -
  have "(0::rat) < 2 powi e" by simp
  with assms(1) have pos: "0 < x" by linarith
  note b = exponent_bounds [OF pos]
  from b(1) assms(2) have "(2::rat) powi exponent x < 2 powi (e + 1)" by linarith
  then have "exponent x < e + 1" by (rule powi2_less_imp)
  moreover from assms(1) b(2) have "(2::rat) powi e < 2 powi (exponent x + 1)" by linarith
  then have "e < exponent x + 1" by (rule powi2_less_imp)
  ultimately show ?thesis by simp
qed

lemma rne_error: "\<bar>of_int (rne x) - x\<bar> \<le> 1 / 2"
proof -
  have "of_int \<lfloor>x\<rfloor> \<le> x" "x < of_int \<lfloor>x\<rfloor> + 1" by linarith+
  then show ?thesis
    by (auto simp add: rne_def Let_def)
qed

lemma rne_unique:
  assumes "\<bar>of_int n - x\<bar> < 1 / 2"
  shows "rne x = n"
proof -
  have "\<bar>of_int (rne x) - x\<bar> \<le> 1 / 2" by (rule rne_error)
  with assms have "\<bar>rat_of_int (rne x) - of_int n\<bar> < 1" by linarith
  then have "\<bar>rat_of_int (rne x - n)\<bar> < 1" by simp
  then have "\<bar>rne x - n\<bar> < 1" by (simp only: of_int_abs [symmetric] of_int_less_1_iff)
  then show ?thesis by simp
qed

lemma rne_of_int: "rne (of_int n) = n"
  by (rule rne_unique) simp

lemma binary64_step:
  assumes "x \<noteq> 0"
  defines "e \<equiv> max (exponent \<bar>x\<bar>) (- 1022) - 52"
  defines "y \<equiv> of_int (rne (x / 2 powi e)) * 2 powi e"
  shows "binary64 x = (if \<bar>y\<bar> < 2 powi 1024 then Some y else None)"
    and "\<bar>y - x\<bar> \<le> 2 powi e / 2"
proof -
  show "binary64 x = (if \<bar>y\<bar> < 2 powi 1024 then Some y else None)"
    using assms(1) unfolding binary64_def e_def y_def Let_def by simp
  have p: "(0::rat) < 2 powi e" by simp
  then have "y - x = (of_int (rne (x / 2 powi e)) - x / 2 powi e) * 2 powi e"
    unfolding y_def by (simp add: field_simps)
  then have "\<bar>y - x\<bar> = \<bar>of_int (rne (x / 2 powi e)) - x / 2 powi e\<bar> * 2 powi e"
    using p by (simp add: abs_mult)
  also have "\<dots> \<le> (1 / 2) * 2 powi e"
    using rne_error [of "x / 2 powi e"] p by (intro mult_right_mono) simp_all
  finally show "\<bar>y - x\<bar> \<le> 2 powi e / 2" by simp
qed

lemma powi2_split: "(2::rat) powi (a - 52) = 2 powi a / 2 ^ 52"
  by (simp add: power_int_diff)

lemma binary64_error:
  assumes lo: "2 powi (- 1022) \<le> \<bar>x\<bar>" and hi: "\<bar>x\<bar> < 2 powi 1023"
  shows "\<exists>y. binary64 x = Some y \<and> \<bar>y - x\<bar> \<le> \<bar>x\<bar> / 2 ^ 53"
proof -
  have "(0::rat) < 2 powi (- 1022)" by (rule zero_less_power_int) simp
  with lo have pos: "0 < \<bar>x\<bar>" by linarith
  then have nz: "x \<noteq> 0" by simp
  define E where "E = exponent \<bar>x\<bar>"
  note b = exponent_bounds [OF pos, folded E_def]
  from lo b(2) have "(2::rat) powi (- 1022) < 2 powi (E + 1)" by linarith
  then have "- 1022 < E + 1" by (rule powi2_less_imp)
  then have m: "max E (- 1022) = E" by simp
  define y :: rat where "y = of_int (rne (x / 2 powi (E - 52))) * 2 powi (E - 52)"
  from binary64_step [OF nz] m
  have s: "binary64 x = (if \<bar>y\<bar> < 2 powi 1024 then Some y else None)"
    and d: "\<bar>y - x\<bar> \<le> 2 powi (E - 52) / 2"
    unfolding y_def E_def by simp_all
  have "2 powi (E - 52) / 2 = 2 powi E / (2::rat) ^ 53"
    by (simp add: powi2_split)
  also have "\<dots> \<le> \<bar>x\<bar> / 2 ^ 53"
    using b(1) by (simp add: divide_right_mono)
  finally have e: "\<bar>y - x\<bar> \<le> \<bar>x\<bar> / 2 ^ 53"
    using d by linarith
  have "\<bar>x\<bar> / 2 ^ 53 \<le> \<bar>x\<bar>" using pos by (simp add: field_simps)
  with e have "\<bar>y\<bar> \<le> 2 * \<bar>x\<bar>" by linarith
  also have "\<dots> < 2 * 2 powi 1023" using hi by simp
  also have "\<dots> = (2::rat) powi 1024" by simp
  finally have "\<bar>y\<bar> < 2 powi 1024" .
  with s e show ?thesis by simp
qed

lemma binary64_of_int:
  assumes "\<bar>k\<bar> < 2 ^ 53"
  shows "binary64 (of_int k) = Some (of_int k)"
proof (cases "k = 0")
  case True
  then show ?thesis by (simp add: binary64_def)
next
  case False
  define x where "x = rat_of_int k"
  from False have nz: "x \<noteq> 0" and ge1: "1 \<le> \<bar>x\<bar>"
    unfolding x_def by (simp_all flip: of_int_abs)
  then have pos: "0 < \<bar>x\<bar>" by linarith
  from assms have lt: "\<bar>x\<bar> < 2 ^ 53"
    unfolding x_def by (simp flip: of_int_abs)
  define E where "E = exponent \<bar>x\<bar>"
  note b = exponent_bounds [OF pos, folded E_def]
  from ge1 b(2) have "(2::rat) powi 0 < 2 powi (E + 1)" by simp
  then have E0: "0 \<le> E" using powi2_less_imp [of 0 "E + 1"] by simp
  from b(1) lt have "(2::rat) powi E < 2 powi 53" by simp
  then have E53: "E < 53" by (rule powi2_less_imp)
  from E0 have m: "max E (- 1022) = E" by simp
  define n where "n = nat (52 - E)"
  have "E - 52 = - int n" unfolding n_def using E53 by simp
  then have pw: "(2::rat) powi (E - 52) = 1 / 2 ^ n"
    by (simp only: power_int_minus power_int_of_nat inverse_eq_divide)
  have t: "x / 2 powi (E - 52) = of_int (k * 2 ^ n)"
    unfolding pw x_def by simp
  have r: "rne (x / 2 powi (E - 52)) = k * 2 ^ n"
    unfolding t by (rule rne_of_int)
  have "rat_of_int (rne (x / 2 powi (E - 52))) = of_int (k * 2 ^ n)"
    by (simp only: r)
  then have y: "of_int (rne (x / 2 powi (E - 52))) * 2 powi (E - 52) = x"
    by (simp add: pw x_def)
  have big: "(2::rat) ^ 53 \<le> 2 powi 1024" by simp
  from binary64_step(1) [OF nz] m y lt big
  show ?thesis
    unfolding x_def [symmetric] E_def [symmetric] by simp
qed

lemma binary64_0: "binary64 0 = Some 0"
  by (simp add: binary64_def)

lemma binary64_1: "binary64 1 = Some 1"
  using binary64_of_int [of 1] by simp

lemma binary64_100: "binary64 100 = Some 100"
  using binary64_of_int [of 100] by simp

lemma binary64_10000: "binary64 10000 = Some 10000"
  using binary64_of_int [of 10000] by simp

lemma Math_round_of_int: "Math_round (of_int k) = k"
  unfolding Math_round_def by (rule floor_unique) simp_all

subsection \<open>The progress of a download\<close>

lemma binary64_error_pos:
  assumes "1 / 2 ^ 60 \<le> x" and "x \<le> 2 ^ 20"
  shows "\<exists>y. binary64 x = Some y \<and> \<bar>y - x\<bar> \<le> x / 2 ^ 53"
proof -
  have "(0::rat) < 1 / 2 ^ 60" by simp
  with assms(1) have pos: "0 < x" by linarith
  have "(2::rat) powi (- 1022) \<le> 2 powi (- 60)"
    by (rule power_int_increasing) simp_all
  also have "\<dots> = 1 / 2 ^ 60"
    by (simp only: power_int_minus power_int_numeral inverse_eq_divide)
  finally have lo: "2 powi (- 1022) \<le> \<bar>x\<bar>" using assms(1) pos by simp
  have "(2::rat) ^ 20 = 2 powi 20" by simp
  also have "\<dots> < 2 powi 1023" by (rule power_int_strict_increasing) simp_all
  finally have hi: "\<bar>x\<bar> < 2 powi 1023" using assms(2) pos by simp
  from binary64_error [OF lo hi] pos show ?thesis by simp
qed

lemma progress_size_zero:
  "size_item item = 0 \<Longrightarrow> getDownloadProgress item = Some 0"
  by (simp add: getDownloadProgress_def)

lemma progress_complete:
  assumes "binary64 (size_item item) = Some (size_item item)"
    and "size_item item \<noteq> 0" and "sizeleft item = 0"
  shows "getDownloadProgress item = Some 100"
  using assms Math_round_of_int [of 10000]
  by (simp add: getDownloadProgress_def number_sub_def number_div_def number_mul_def
      binary64_1 binary64_100 binary64_10000)

lemma progress_none:
  assumes "sizeleft item = size_item item"
  shows "getDownloadProgress item = Some 0"
  using assms Math_round_of_int [of 0]
  by (simp add: getDownloadProgress_def number_sub_def number_div_def number_mul_def
      binary64_0)

lemma progress_chain:
  fixes x q p s r :: rat and k :: int
  assumes "0 \<le> x" "x \<le> 1"
    and "\<bar>q - x\<bar> \<le> x / 2 ^ 53"
    and "\<bar>p - q * 100\<bar> \<le> q * 100 / 2 ^ 53"
    and "\<bar>s - p * 100\<bar> \<le> p * 100 / 2 ^ 53"
    and "\<bar>of_int k - s\<bar> \<le> 1 / 2"
    and "\<bar>r - of_int k / 100\<bar> \<le> of_int k / 100 / 2 ^ 53"
  shows "\<bar>r - x * 100\<bar> \<le> 1 / 200 + 1 / 2 ^ 44"
    and "\<bar>of_int k / 100 - x * 100\<bar> \<le> 1 / 200 + 1 / 2 ^ 44"
proof -
  have n: "(2::rat) ^ 53 = 9007199254740992" "(2::rat) ^ 44 = 17592186044416"
    by simp_all
  note a = assms [unfolded n]
  from a(1-3) have q: "0 \<le> q" "q \<le> 101 / 100" by linarith+
  with a(4) have p: "0 \<le> p" "p \<le> 102" by linarith+
  with a(5) have s: "0 \<le> s" "s \<le> 10250" by linarith+
  with a(6) have k: "rat_of_int k \<le> 10300" by linarith
  from a(3) a(2) have e1: "\<bar>q * 10000 - x * 10000\<bar> \<le> 10000 / 9007199254740992"
    by linarith
  from a(4) q have e2: "\<bar>p * 100 - q * 10000\<bar> \<le> 10100 / 9007199254740992"
    by linarith
  from a(5) p have e3: "\<bar>s - p * 100\<bar> \<le> 10200 / 9007199254740992"
    by linarith
  from a(7) k have e4: "\<bar>r * 100 - of_int k\<bar> \<le> 10300 / 9007199254740992"
    by linarith
  from e1 e2 e3 e4 a(6)
  have "\<bar>r * 100 - x * 10000\<bar> \<le> 1 / 2 + 40600 / 9007199254740992"
    by linarith
  then show "\<bar>r - x * 100\<bar> \<le> 1 / 200 + 1 / 2 ^ 44"
    unfolding n by linarith
  from e1 e2 e3 a(6)
  have "\<bar>of_int k - x * 10000\<bar> \<le> 1 / 2 + 30300 / 9007199254740992"
    by linarith
  then show "\<bar>of_int k / 100 - x * 100\<bar> \<le> 1 / 200 + 1 / 2 ^ 44"
    unfolding n by linarith
qed

lemma progress_byte_counts:
  assumes sz: "size_item item = of_int a" and sl: "sizeleft item = of_int b"
    and b0: "0 \<le> b" and ba: "b \<le> a" and a0: "0 < a" and a53: "a < 2 ^ 53"
  shows "\<exists>k r. getDownloadProgress item = Some r
           \<and> binary64 (of_int k / 100) = Some r
           \<and> \<bar>of_int k / 100 - (size_item item - sizeleft item) / size_item item * 100\<bar>
               \<le> 1 / 200 + 1 / 2 ^ 44
           \<and> \<bar>r - (size_item item - sizeleft item) / size_item item * 100\<bar>
               \<le> 1 / 200 + 1 / 2 ^ 44"
proof (cases "b = a")
  case True
  with sz sl have eq: "sizeleft item = size_item item" by simp
  then have g: "getDownloadProgress item = Some 0"
    by (rule progress_none)
  from eq have e: "(size_item item - sizeleft item) / size_item item * 100 = 0"
    by simp
  have z: "binary64 (of_int 0 / 100) = Some 0"
    by (simp add: binary64_0)
  show ?thesis
    unfolding e g using z by (intro exI [of _ 0]) simp
next
  case False
  define d where "d = a - b"
  from False ba b0 a53 have d: "0 < d" "d \<le> a" "\<bar>d\<bar> < 2 ^ 53"
    unfolding d_def by simp_all
  define x where "x = rat_of_int d / rat_of_int a"
  have n: "(2::rat) ^ 53 = 9007199254740992" "(2::rat) ^ 60 = 1152921504606846976"
    "(2::rat) ^ 20 = 1048576"
    by simp_all
  have ra: "0 < rat_of_int a" "rat_of_int a < 2 ^ 53" "1 \<le> rat_of_int d"
    "rat_of_int d \<le> rat_of_int a"
    using a0 a53 d by simp_all
  have x1: "x \<le> 1" unfolding x_def using ra by (simp add: field_simps)
  have "1 / rat_of_int a \<le> x" unfolding x_def using ra by (simp add: divide_right_mono)
  moreover have "1 / 2 ^ 53 < 1 / rat_of_int a" using ra by (simp add: field_simps)
  ultimately have xl: "1 / 9007199254740992 < x" unfolding n by linarith
  then have x0: "0 \<le> x" by linarith
  have sub: "number_sub (size_item item) (sizeleft item) = Some (of_int d)"
    using binary64_of_int [OF d(3)] by (simp add: number_sub_def sz sl d_def)
  from xl x1 have "1 / 2 ^ 60 \<le> x" "x \<le> 2 ^ 20" unfolding n by linarith+
  from binary64_error_pos [OF this] obtain q
    where q: "binary64 x = Some q" "\<bar>q - x\<bar> \<le> x / 2 ^ 53" by blast
  from q(2) xl x1 have qb: "1 / 2 ^ 60 \<le> q * 100" "q * 100 \<le> 2 ^ 20"
    unfolding n by linarith+
  from binary64_error_pos [OF this] obtain p
    where p: "binary64 (q * 100) = Some p" "\<bar>p - q * 100\<bar> \<le> q * 100 / 2 ^ 53" by blast
  from p(2) q(2) xl x1 have pb: "1 / 2 ^ 60 \<le> p * 100" "p * 100 \<le> 2 ^ 20"
    unfolding n by linarith+
  from binary64_error_pos [OF this] obtain s
    where s: "binary64 (p * 100) = Some s" "\<bar>s - p * 100\<bar> \<le> p * 100 / 2 ^ 53" by blast
  define k where "k = Math_round s"
  have fl: "rat_of_int k \<le> s + 1 / 2" "s + 1 / 2 < rat_of_int k + 1"
    unfolding k_def Math_round_def by linarith+
  then have ke: "\<bar>rat_of_int k - s\<bar> \<le> 1 / 2" by linarith
  from s(2) p(2) q(2) xl x1 have sb: "0 \<le> s" "s \<le> 10250"
    unfolding n by linarith+
  then have kb: "0 \<le> k" "k \<le> 10251"
    unfolding k_def Math_round_def by linarith+
  have "\<exists>r. binary64 (rat_of_int k / 100) = Some r
          \<and> \<bar>r - rat_of_int k / 100\<bar> \<le> rat_of_int k / 100 / 2 ^ 53"
  proof (cases "k = 0")
    case True
    then show ?thesis by (simp add: binary64_0)
  next
    case False
    with kb have "1 \<le> k" by simp
    then have "1 \<le> rat_of_int k" by simp
    moreover from kb have "rat_of_int k \<le> 10251" by simp
    ultimately have "1 / 2 ^ 60 \<le> rat_of_int k / 100" "rat_of_int k / 100 \<le> 2 ^ 20"
      unfolding n by linarith+
    from binary64_error_pos [OF this] show ?thesis .
  qed
  then obtain r where r: "binary64 (rat_of_int k / 100) = Some r"
    "\<bar>r - rat_of_int k / 100\<bar> \<le> rat_of_int k / 100 / 2 ^ 53" by blast
  have nz: "size_item item \<noteq> 0" using sz ra by simp
  have g: "getDownloadProgress item = Some r"
    using nz sub q(1) p(1) s(1) r(1)
    by (simp add: getDownloadProgress_def number_div_def number_mul_def sz x_def k_def)
  have e: "(size_item item - sizeleft item) / size_item item * 100 = x * 100"
    by (simp add: sz sl x_def d_def)
  from progress_chain [OF x0 x1 q(2) p(2) s(2) ke r(2)] g e r(1) show ?thesis
    by (intro exI [of _ k] exI [of _ r]) simp
qed

subsection \<open>Evaluation at concrete sizes\<close>

lemma binary64_eval:
  assumes nz: "x \<noteq> 0"
    and lo: "2 powi E \<le> \<bar>x\<bar>" and hi: "\<bar>x\<bar> < 2 powi (E + 1)"
    and el: "- 1022 \<le> E" and eh: "E \<le> 1022"
    and m: "\<bar>of_int m - x / 2 powi (E - 52)\<bar> < 1 / 2"
  shows "binary64 x = Some (of_int m * 2 powi (E - 52))"
proof -
  have ex: "exponent \<bar>x\<bar> = E" using lo hi by (rule exponent_unique)
  with el have mx: "max (exponent \<bar>x\<bar>) (- 1022) = E" by simp
  have r: "rne (x / 2 powi (E - 52)) = m" using m by (rule rne_unique)
  from binary64_step [OF nz] mx r
  have s: "binary64 x =
      (if \<bar>of_int m * 2 powi (E - 52)\<bar> < (2::rat) powi 1024
       then Some (of_int m * 2 powi (E - 52)) else None)"
    and d: "\<bar>of_int m * 2 powi (E - 52) - x\<bar> \<le> 2 powi (E - 52) / 2"
    by simp_all
  have "(2::rat) powi (E - 52) \<le> 2 powi (E + 1)"
    by (rule power_int_increasing) simp_all
  moreover have "(0::rat) < 2 powi (E - 52)" by simp
  ultimately have "\<bar>of_int m * 2 powi (E - 52)\<bar> < 2 * (2::rat) powi (E + 1)"
    using d hi by linarith
  also have "2 * (2::rat) powi (E + 1) = 2 powi (E + 2)"
    by (simp add: power_int_add)
  also have "\<dots> \<le> 2 powi 1024"
    using eh by (intro power_int_increasing) simp_all
  finally show ?thesis using s by simp
qed

lemma progress_160_63:
  "getDownloadProgress \<lparr>size_item = 160, sizeleft = 63\<rparr>
     = Some (8531506544099983 / 140737488355328)"
proof -
  have d: "binary64 97 = Some 97"
    using binary64_of_int [of 97] by simp
  have q: "binary64 (97 / 160) = Some (2730307274093363 / 4503599627370496)"
    using binary64_eval [of "97 / 160" "- 1" 5460614548186726] by simp
  have p: "binary64 (68257681852334075 / 1125899906842624) = Some (8532210231541759 / 140737488355328)"
    using binary64_eval [of "68257681852334075 / 1125899906842624" "5" 8532210231541759] by simp
  have s: "binary64 (213305255788543975 / 35184372088832) = Some (6665789243391999 / 1099511627776)"
    using binary64_eval [of "213305255788543975 / 35184372088832" "12" 6665789243391999] by simp
  have k: "Math_round (6665789243391999 / 1099511627776) = 6062"
    unfolding Math_round_def by (rule floor_unique) simp_all
  have r: "binary64 (3031 / 50) = Some (8531506544099983 / 140737488355328)"
    using binary64_eval [of "3031 / 50" "5" 8531506544099983] by simp
  show ?thesis
    by (simp add: getDownloadProgress_def number_sub_def number_div_def number_mul_def
        d q p s k r)
qed

lemma progress_462GB:
  "getDownloadProgress \<lparr>size_item = 462269542509, sizeleft = 83462765900\<rparr>
     = Some (5766718585359565 / 70368744177664)"
proof -
  have d: "binary64 378806776609 = Some 378806776609"
    using binary64_of_int [of 378806776609] by simp
  have q: "binary64 (378806776609 / 462269542509) = Some (7380949429297505 / 9007199254740992)"
    using binary64_eval [of "378806776609 / 462269542509" "- 1" 7380949429297505] by simp
  have p: "binary64 (184523735732437625 / 2251799813685248) = Some (1441591685409669 / 17592186044416)"
    using binary64_eval [of "184523735732437625 / 2251799813685248" "6" 5766366741638676] by simp
  have s: "binary64 (36039792135241725 / 4398046511104) = Some (16389 / 2)"
    using binary64_eval [of "36039792135241725 / 4398046511104" "13" 4504974016905216] by simp
  have k: "Math_round (16389 / 2) = 8195"
    unfolding Math_round_def by (rule floor_unique) simp_all
  have r: "binary64 (1639 / 20) = Some (5766718585359565 / 70368744177664)"
    using binary64_eval [of "1639 / 20" "6" 5766718585359565] by simp
  show ?thesis
    by (simp add: getDownloadProgress_def number_sub_def number_div_def number_mul_def
        d q p s k r)
qed

text \<open>
  Claim C4, as amended. \<open>getDownloadProgress\<close> returns 0 when the size is 0. Otherwise it
  computes \<^verbatim>\<open>Math.round(progress * 100) / 100\<close> in binary64 arithmetic: for byte counts
  \<open>0 \<le> sizeleft \<le> size < 2 ^ 53\<close> the result is the binary64 value nearest to a
  multiple \<open>k / 100\<close> of one hundredth, and both \<open>k / 100\<close> and the result differ from the
  exact percentage \<open>(size - sizeleft) / size * 100\<close> by at most \<open>1 / 200 + 1 / 2 ^ 44\<close>.
  For a positive size it returns 100 when nothing is left and 0 when everything is left.
\<close>

theorem getDownloadProgress_binary64:
  "(size_item item = 0 \<longrightarrow> getDownloadProgress item = Some 0)
   \<and> (\<forall>a b. size_item item = of_int a \<and> sizeleft item = of_int b
          \<and> 0 \<le> b \<and> b \<le> a \<and> 0 < a \<and> a < 2 ^ 53 \<longrightarrow>
        (\<exists>k r. getDownloadProgress item = Some r
           \<and> binary64 (of_int k / 100) = Some r
           \<and> \<bar>of_int k / 100 - (size_item item - sizeleft item) / size_item item * 100\<bar>
               \<le> 1 / 200 + 1 / 2 ^ 44
           \<and> \<bar>r - (size_item item - sizeleft item) / size_item item * 100\<bar>
               \<le> 1 / 200 + 1 / 2 ^ 44))
   \<and> (0 < size_item item \<and> binary64 (size_item item) = Some (size_item item)
        \<and> sizeleft item = 0 \<longrightarrow> getDownloadProgress item = Some 100)
   \<and> (0 < size_item item \<and> sizeleft item = size_item item \<longrightarrow>
        getDownloadProgress item = Some 0)"
proof (intro conjI impI allI)
  assume "size_item item = 0"
  then show "getDownloadProgress item = Some 0"
    by (rule progress_size_zero)
next
  fix a b
  assume "size_item item = of_int a \<and> sizeleft item = of_int b
          \<and> 0 \<le> b \<and> b \<le> a \<and> 0 < a \<and> a < 2 ^ 53"
  then show "\<exists>k r. getDownloadProgress item = Some r
           \<and> binary64 (of_int k / 100) = Some r
           \<and> \<bar>of_int k / 100 - (size_item item - sizeleft item) / size_item item * 100\<bar>
               \<le> 1 / 200 + 1 / 2 ^ 44
           \<and> \<bar>r - (size_item item - sizeleft item) / size_item item * 100\<bar>
               \<le> 1 / 200 + 1 / 2 ^ 44"
    using progress_byte_counts [of item a b] by blast
next
  assume "0 < size_item item \<and> binary64 (size_item item) = Some (size_item item)
        \<and> sizeleft item = 0"
  then show "getDownloadProgress item = Some 100"
    using progress_complete [of item] by simp
next
  assume "0 < size_item item \<and> sizeleft item = size_item item"
  then show "getDownloadProgress item = Some 0"
    using progress_none [of item] by simp
qed

text \<open>Size 0; 63 left of 160; nothing and everything left of size 1024.\<close>

theorem getDownloadProgress_binary64_witness:
  "getDownloadProgress \<lparr>size_item = 0, sizeleft = 5\<rparr> = Some 0
   \<and> getDownloadProgress \<lparr>size_item = 160, sizeleft = 63\<rparr>
       = Some (8531506544099983 / 140737488355328)
   \<and> binary64 (6062 / 100) = Some (8531506544099983 / 140737488355328)
   \<and> \<bar>8531506544099983 / 140737488355328 - (160 - 63) / 160 * 100\<bar>
       \<le> (1 / 200 + 1 / 2 ^ 44 :: rat)
   \<and> binary64 1024 = Some 1024
   \<and> getDownloadProgress \<lparr>size_item = 1024, sizeleft = 0\<rparr> = Some 100
   \<and> getDownloadProgress \<lparr>size_item = 1024, sizeleft = 1024\<rparr> = Some 0"
proof -
  have a: "binary64 1024 = Some 1024"
    using binary64_of_int [of 1024] by simp
  have b: "binary64 (6062 / 100) = Some (8531506544099983 / 140737488355328)"
    using binary64_eval [of "3031 / 50" 5 8531506544099983] by simp
  note t = getDownloadProgress_binary64
  from t [of "\<lparr>size_item = 0, sizeleft = 5\<rparr>"]
  have z: "getDownloadProgress \<lparr>size_item = 0, sizeleft = 5\<rparr> = Some 0"
    by simp
  from t [of "\<lparr>size_item = 1024, sizeleft = 0\<rparr>"] a
  have c: "getDownloadProgress \<lparr>size_item = 1024, sizeleft = 0\<rparr> = Some 100"
    by simp
  from t [of "\<lparr>size_item = 1024, sizeleft = 1024\<rparr>"]
  have n: "getDownloadProgress \<lparr>size_item = 1024, sizeleft = 1024\<rparr> = Some 0"
    by simp
  from t [of "\<lparr>size_item = 160, sizeleft = 63\<rparr>", THEN conjunct2, THEN conjunct1,
      rule_format, of 160 63]
  obtain k r where "getDownloadProgress \<lparr>size_item = 160, sizeleft = 63\<rparr> = Some r"
    and "\<bar>r - (160 - 63) / 160 * 100\<bar> \<le> 1 / 200 + 1 / 2 ^ 44"
    by auto
  with progress_160_63
  have e: "\<bar>8531506544099983 / 140737488355328 - (160 - 63) / 160 * 100\<bar>
       \<le> (1 / 200 + 1 / 2 ^ 44 :: rat)"
    by simp
  from z progress_160_63 b e a c n show ?thesis
    by (intro conjI)
qed

text \<open>
  Claim C4 as stated fails, the result not being the exact percentage rounded to two
  decimal places. With 63 left of 160 the percentage is 60.625, which \<^verbatim>\<open>Math.round\<close>
  would take to 60.63, and the result is the binary64 value of 60.62, below
  \<open>60.625 - 0.005\<close>. With 83462765900 left of 462269542509 the hundredth nearest to the
  percentage is 81.94, and the result is the binary64 value of 81.95, more than 0.005
  away from the percentage.
\<close>

theorem getDownloadProgress_not_exact_rounding:
  "getDownloadProgress \<lparr>size_item = 160, sizeleft = 63\<rparr>
     = Some (8531506544099983 / 140737488355328)
   \<and> (160 - 63) / 160 * 100 = (485 / 8 :: rat)
   \<and> rat_of_int (Math_round (485 / 8 * 100)) / 100 = 6063 / 100
   \<and> (8531506544099983 / 140737488355328 :: rat) < 6063 / 100 - 1 / 100
   \<and> (8531506544099983 / 140737488355328 :: rat) < 485 / 8 - 1 / 200
   \<and> getDownloadProgress \<lparr>size_item = 462269542509, sizeleft = 83462765900\<rparr>
       = Some (5766718585359565 / 70368744177664)
   \<and> \<bar>8194 / 100 - (462269542509 - 83462765900) / 462269542509 * 100\<bar> < (1 / 200 :: rat)
   \<and> 1 / 200 < \<bar>5766718585359565 / 70368744177664
                  - (462269542509 - 83462765900) / 462269542509 * 100 :: rat\<bar>"
proof -
  have k: "Math_round (485 / 8 * 100) = 6063"
    unfolding Math_round_def by (rule floor_unique) simp_all
  from progress_160_63 progress_462GB k show ?thesis
    by simp
qed

section \<open>Properties of the polling of the download queue\<close>

lemma run_cleanup_settled:
  assumes "settled st"
  shows "active (run_cleanup st) = []"
  using assms
  by (cases st) (auto simp add: settled_def run_cleanup_def clearInterval_def queue_timer_def
      split: option.splits)

lemma render_settled:
  assumes "settled st"
  shows "settled (render st q)"
    and "fst (render st q) \<noteq> None \<longleftrightarrow> has_downloading q"
  using run_cleanup_settled [OF assms]
  by (auto simp add: render_def polling_effect_def setInterval_def settled_def
      has_downloading_def queue_timer_def Let_def)

lemma renders_snoc: "renders (snapshots @ [q]) = render (renders snapshots) q"
  by (simp add: renders_def)

lemma renders_settled: "settled (renders snapshots)"
proof (induction snapshots rule: rev_induct)
  case Nil
  show ?case by (simp add: renders_def mounted_def settled_def)
next
  case (snoc q snapshots)
  then show ?case by (simp add: renders_snoc render_settled(1))
qed

lemma settled_polling: "settled st \<Longrightarrow> polling st \<longleftrightarrow> fst st \<noteq> None"
  by (auto simp add: settled_def polling_def split: option.splits)

lemma settled_timers:
  "settled st \<Longrightarrow> t \<in> set (active (snd st)) \<Longrightarrow> delay t = 5000 \<and> callback t = refresh_action"
  by (auto simp add: settled_def queue_timer_def refresh_action_def split: option.splits)

lemma settled_tick: "settled st \<Longrightarrow> tick st = (if polling st then refresh_action else [])"
  by (auto simp add: settled_def polling_def tick_def queue_timer_def refresh_action_def
      split: option.splits)

lemma has_downloading_yes: "has_downloading (Some [completed_item, downloading_item])"
  by (simp add: has_downloading_def queueItems_of_def completed_item_def downloading_item_def)

lemma has_downloading_no: "\<not> has_downloading (Some [completed_item])"
  by (simp add: has_downloading_def queueItems_of_def completed_item_def downloading_item_def)

text \<open>
  Claim C8. After any sequence of snapshots the controller is in one of two states: a
  timer is active exactly when the current snapshot has an item whose status is
  "downloading". There is at most one active timer, its delay is 5000 milliseconds, and
  what a tick runs is what the Refresh action runs. No timer is active before the first
  snapshot, nor once the view is dismissed.
\<close>

theorem polling_follows_snapshot:
  "(polling (renders (snapshots @ [queueResponse])) \<longleftrightarrow> has_downloading queueResponse)
   \<and> length (active (snd (renders (snapshots @ [queueResponse])))) \<le> 1
   \<and> (\<forall>t \<in> set (active (snd (renders (snapshots @ [queueResponse])))).
         delay t = 5000 \<and> callback t = refresh_action)
   \<and> tick (renders (snapshots @ [queueResponse]))
       = (if has_downloading queueResponse then refresh_action else [])
   \<and> \<not> polling (renders [])
   \<and> \<not> polling (dismiss (renders (snapshots @ [queueResponse])))"
proof -
  let ?st = "renders (snapshots @ [queueResponse])"
  have s: "settled ?st"
    by (rule renders_settled)
  have "settled (renders snapshots)"
    by (rule renders_settled)
  then have "fst ?st \<noteq> None \<longleftrightarrow> has_downloading queueResponse"
    unfolding renders_snoc by (rule render_settled(2))
  with s have p: "polling ?st \<longleftrightarrow> has_downloading queueResponse"
    by (simp add: settled_polling)
  from s have l: "length (active (snd ?st)) \<le> 1"
    by (simp add: settled_def split: option.splits)
  from s have t: "\<forall>t \<in> set (active (snd ?st)). delay t = 5000 \<and> callback t = refresh_action"
    using settled_timers by blast
  from s p have k: "tick ?st = (if has_downloading queueResponse then refresh_action else [])"
    by (simp add: settled_tick)
  have m: "\<not> polling (renders [])"
    by (simp add: renders_def mounted_def polling_def)
  from s have d: "\<not> polling (dismiss ?st)"
    by (simp add: dismiss_def polling_def run_cleanup_settled)
  from p l t k m d show ?thesis
    by blast
qed

text \<open>A snapshot with a downloading item starts the timer; the next snapshot, without
  one, stops it.\<close>

theorem polling_follows_snapshot_witness:
  "has_downloading (Some [completed_item, downloading_item])
   \<and> polling (renders ([None] @ [Some [completed_item, downloading_item]]))
   \<and> active (snd (renders ([None] @ [Some [completed_item, downloading_item]])))
       = [\<lparr>handle = 0, delay = 5000, callback = [Mutate]\<rparr>]
   \<and> tick (renders ([None] @ [Some [completed_item, downloading_item]])) = refresh_action
   \<and> \<not> has_downloading (Some [completed_item])
   \<and> \<not> polling (renders ([None, Some [completed_item, downloading_item]] @ [Some [completed_item]]))
   \<and> tick (renders ([None, Some [completed_item, downloading_item]] @ [Some [completed_item]])) = []"
proof -
  have a: "active (snd (renders ([None] @ [Some [completed_item, downloading_item]])))
       = [\<lparr>handle = 0, delay = 5000, callback = [Mutate]\<rparr>]"
    by (simp add: renders_def render_def mounted_def run_cleanup_def polling_effect_def
        setInterval_def queueItems_of_def completed_item_def downloading_item_def)
  from polling_follows_snapshot [of "[None]" "Some [completed_item, downloading_item]"]
    polling_follows_snapshot
      [of "[None, Some [completed_item, downloading_item]]" "Some [completed_item]"]
    has_downloading_yes has_downloading_no a
  show ?thesis
    by simp
qed

end
